theory Spec2Isabelle
  imports Main "HOL-Library.Sublist" "HOL-Library.AList"
begin

section \<open>Resources, errors and the decision log\<close>

text \<open>
  The fields of \<^verbatim>\<open>compute.Image\<close> and \<^verbatim>\<open>compute.Instance\<close> that the janitor reads:
  the name, the creation timestamp (an RFC3339 string) and, for an instance, the URL of
  its zone. Both kinds of resource are values of this one record.
\<close>

record resource =
  Name :: string
  CreationTimestamp :: string
  Zone :: string

text \<open>
  A \<^verbatim>\<open>time.Time\<close> is an instant on a linear scale, written as an integer (Unix seconds
  in the examples); \<^verbatim>\<open>a.Before(b)\<close> is \<open>a < b\<close>. The call
  \<^verbatim>\<open>time.Parse(time.RFC3339, s)\<close> belongs to the Go library and is a parameter of the
  model: \<open>None\<close> is a parse error.
\<close>

type_synonym time = int
type_synonym time_parser = "string \<Rightarrow> time option"

text \<open>
  \<^verbatim>\<open>regexp.MustCompile(p)\<close> is a parameter too: \<open>None\<close> when the pattern does not compile
  (MustCompile panics), otherwise the predicate \<^verbatim>\<open>MatchString\<close> of the compiled expression.
\<close>

type_synonym regexp_lib = "string \<Rightarrow> (string \<Rightarrow> bool) option"

text \<open>
  Error values. \<open>ApiError\<close> is an error returned by a call of the compute API,
  \<open>ParseError\<close> the error of \<^verbatim>\<open>time.Parse\<close>, \<open>Errorf\<close> the wrapping done by
  \<^verbatim>\<open>fmt.Errorf("...: %s", err)\<close>. \<open>Fatal\<close> and \<open>Panic\<close> are not values a Go function
  returns: they stand for the end of the whole process inside the call, by
  \<^verbatim>\<open>log.Fatalf\<close> (which exits with status 1) or by a run-time panic.
\<close>

datatype error =
    ApiError string
  | ParseError string
  | Errorf string error
  | Fatal string
  | Panic string

text \<open>The lines written to the log, by the statement that writes them.\<close>

datatype log_entry =
    IgnoringBlacklisted string
  | ExcludedNewestOfKind string string
  | EligibleNotSingleton string string
  | SchemeIsSingleton string
  | SelectedOlderThan string string time
  | ExcludedNewerThan string string time
  | ExcludedMostRecentOfType string string
  | ExcludedSingleton string string
  | NoBlacklistPatterns
  | OlderThanExpiredBy string string time
  | NewerThanExpiredBy string string time
  | NothingToDelete
  | IssuingParallelDelete
  | SuccessfullyDeleted
  | DeletingResource string
  | DeletedResource string
  | WorkerStarting string nat
  | WorkerStopping string nat
  | FatalLine string

section \<open>String helpers of the Go library\<close>

text \<open>
  \<^verbatim>\<open>strings.Index(s, sep)\<close>: the position of the first occurrence of \<open>sep\<close> in \<open>s\<close>,
  \<open>None\<close> for -1.
\<close>

fun Index :: "string \<Rightarrow> string \<Rightarrow> nat option" where
  "Index [] sep = (if sep = [] then Some 0 else None)"
| "Index (c # cs) sep =
     (if prefix sep (c # cs) then Some 0 else map_option Suc (Index cs sep))"

lemma Index_bound: "Index s sep = Some m \<Longrightarrow> m + length sep \<le> length s"
proof (induction s arbitrary: m)
  case Nil
  then show ?case by (simp split: if_splits)
next
  case (Cons c cs)
  show ?case
  proof (cases "prefix sep (c # cs)")
    case True
    with Cons.prems have "m = 0" by simp
    with True prefix_length_le [of sep "c # cs"] show ?thesis by simp
  next
    case False
    with Cons.prems obtain m' where "Index cs sep = Some m'" "m = Suc m'"
      by auto
    with Cons.IH [of m'] show ?thesis by simp
  qed
qed

text \<open>
  \<^verbatim>\<open>utf8.DecodeRuneInString\<close>, as far as the width it returns: a character of a
  string is one byte, and the width is the number of bytes of the UTF-8 sequence at the
  head of the string, 1 when the bytes there are no valid sequence. \<open>sequenceLength\<close>
  and \<open>secondByteRange\<close> are the tables \<^verbatim>\<open>first\<close> and \<^verbatim>\<open>acceptRanges\<close> of the package
  (the bytes 194 to 223 start a sequence of two bytes, 224 to 239 one of three, 240 to
  244 one of four; a continuation byte lies between 128 and 191, and the second byte is
  restricted further after 224, 237, 240 and 244).
\<close>

definition sequenceLength :: "char \<Rightarrow> nat" where
  "sequenceLength s0 =
     (let b = (of_char s0 :: nat) in
      if 194 \<le> b \<and> b \<le> 223 then 2
      else if 224 \<le> b \<and> b \<le> 239 then 3
      else if 240 \<le> b \<and> b \<le> 244 then 4
      else 1)"

definition secondByteRange :: "char \<Rightarrow> nat \<times> nat" where
  "secondByteRange s0 =
     (let b = (of_char s0 :: nat) in
      if b = 224 then (160, 191)
      else if b = 237 then (128, 159)
      else if b = 240 then (144, 191)
      else if b = 244 then (128, 143)
      else (128, 191))"

definition byteWithin :: "nat \<Rightarrow> char \<Rightarrow> nat \<Rightarrow> bool" where
  "byteWithin lo c hi = (lo \<le> (of_char c :: nat) \<and> (of_char c :: nat) \<le> hi)"

definition runeWidth :: "string \<Rightarrow> nat" where
  "runeWidth s =
     (case s of
        [] \<Rightarrow> 0
      | s0 # rest \<Rightarrow>
          (let sz = sequenceLength s0; accept = secondByteRange s0 in
           if sz = 1 then 1
           else if length s < sz then 1
           else if \<not> byteWithin (fst accept) (s ! 1) (snd accept) then 1
           else if sz \<le> 2 then 2
           else if \<not> byteWithin 128 (s ! 2) 191 then 1
           else if sz \<le> 3 then 3
           else if \<not> byteWithin 128 (s ! 3) 191 then 1
           else 4))"

lemma runeWidth_positive: "s \<noteq> [] \<Longrightarrow> 0 < runeWidth s"
  by (cases s) (simp_all add: runeWidth_def Let_def)

text \<open>
  \<^verbatim>\<open>explode(s, -1)\<close> of the package \<^verbatim>\<open>strings\<close> (the name \<open>explode\<close> is taken
  in HOL): the UTF-8 sequences of the string, one
  after the other, a byte that starts no valid sequence on its own (older versions of
  the library put the encoding of U+FFFD in the place of such a byte; the number of
  slices is the same). The Go function counts the sequences first and cuts that many
  times; cutting until nothing is left gives the same slices.
\<close>

function explode_runes :: "string \<Rightarrow> string list" where
  "explode_runes s =
     (if s = [] then []
      else take (runeWidth s) s # explode_runes (drop (runeWidth s) s))"
  by pat_completeness auto
termination
proof (relation "measure length")
  show "wf (measure length)" by simp
next
  fix s :: string
  assume "s \<noteq> []"
  then have "0 < runeWidth s" "0 < length s"
    by (simp_all add: runeWidth_positive)
  then have "length s - runeWidth s < length s"
    by arith
  then show "(drop (runeWidth s) s, s) \<in> measure length"
    by simp
qed

declare explode_runes.simps [simp del]

text \<open>
  \<^verbatim>\<open>strings.Split(s, sep)\<close>, as \<^verbatim>\<open>genSplit\<close> computes it: with an empty separator the
  string is exploded, so that \<^verbatim>\<open>Split("", "")\<close> is the empty slice; otherwise it is cut
  at the first occurrence of the separator and the rest is split in the same way.
\<close>

function Split :: "string \<Rightarrow> string \<Rightarrow> string list" where
  "Split s sep =
     (if sep = [] then explode_runes s
      else case Index s sep of
             None \<Rightarrow> [s]
           | Some m \<Rightarrow> take m s # Split (drop (m + length sep) s) sep)"
  by pat_completeness auto
termination
proof (relation "measure (\<lambda>(s, sep). length s)")
  show "wf (measure (\<lambda>(s, sep). length s))" by simp
next
  fix s sep :: string and m :: nat
  assume "sep \<noteq> []" and "Index s sep = Some m"
  then have "m + length sep \<le> length s" "0 < length sep"
    by (simp_all add: Index_bound)
  then have "length s - (m + length sep) < length s"
    by arith
  then show "((drop (m + length sep) s, sep), (s, sep)) \<in> measure (\<lambda>(s, sep). length s)"
    by simp
qed

declare Split.simps [simp del]

text \<open>\<^verbatim>\<open>strings.Join(elems, sep)\<close>.\<close>

fun Join :: "string list \<Rightarrow> string \<Rightarrow> string" where
  "Join [] sep = []"
| "Join [x] sep = x"
| "Join (x # y # ys) sep = x @ sep @ Join (y # ys) sep"

section \<open>The naming scheme of a resource\<close>

text \<open>
  \<^verbatim>\<open>getResourceName\<close> of the resource-janitor's utils and \<^verbatim>\<open>GetResourceBasename\<close> of
  the janitor's utils have the same body: split the name at the delimiter and join all
  pieces but the last. The slice expression \<^verbatim>\<open>aSplit[:len(aSplit)-1]\<close> panics when the
  split is empty; that is the result \<open>None\<close>.
\<close>

definition getResourceName :: "string \<Rightarrow> string \<Rightarrow> string option" where
  "getResourceName a delimiter =
     (let aSplit = Split a delimiter
      in if aSplit = [] then None else Some (Join (butlast aSplit) delimiter))"

definition GetResourceBasename :: "string \<Rightarrow> string \<Rightarrow> string option" where
  "GetResourceBasename a delimiter =
     (let aSplit = Split a delimiter
      in if aSplit = [] then None else Some (Join (butlast aSplit) delimiter))"

text \<open>
  \<^verbatim>\<open>resourceNamesMatch\<close> of the older utils compares the two basenames. It splits at
  the literal \<^verbatim>\<open>"-"\<close>; its delimiter argument is not used.
\<close>

definition resourceNamesMatch :: "string \<Rightarrow> string \<Rightarrow> string \<Rightarrow> bool option" where
  "resourceNamesMatch a b delimiter =
     (let aSplit = Split a ''-'' in
      if aSplit = [] then None
      else let aName = Join (butlast aSplit) ''-''; bSplit = Split b ''-'' in
           if bSplit = [] then None
           else let bName = Join (butlast bSplit) ''-'' in Some (aName = bName))"

text \<open>\<^verbatim>\<open>sanitizeResourceURL\<close> and \<^verbatim>\<open>GetResourceNameFromURL\<close>: the last piece of a URL.\<close>

definition sanitizeResourceURL :: "string \<Rightarrow> string" where
  "sanitizeResourceURL z = last (Split z ''/'')"

section \<open>The eligibility filter of the resource-janitor\<close>

text \<open>
  One page of a listing call of the compute API: its items and the token of the next
  page, empty on the last page.
\<close>

record page =
  pageItems :: "resource list"
  NextPageToken :: string

text \<open>
  The body of the loop over the items of a page in \<^verbatim>\<open>GetOldAndNonSingletonImages\<close>
  and \<^verbatim>\<open>GetOldAndNonSingletonInstances\<close>: for every item, for every blacklist pattern,
  the item is appended when the pattern does not match its name. The slice
  \<^verbatim>\<open>allImages\<close> and the log are the state of the loop.
\<close>

fun blacklistPatterns ::
  "regexp_lib \<Rightarrow> resource \<Rightarrow> string list \<Rightarrow> resource list \<Rightarrow> log_entry list \<Rightarrow>
   log_entry list \<times> (error + resource list)" where
  "blacklistPatterns rx img [] allImages lg = (lg, Inr allImages)"
| "blacklistPatterns rx img (blacklistPattern # ps) allImages lg =
     (case rx blacklistPattern of
        None \<Rightarrow> (lg, Inl (Panic blacklistPattern))
      | Some re \<Rightarrow>
          if \<not> re (Name img)
          then blacklistPatterns rx img ps (allImages @ [img]) lg
          else blacklistPatterns rx img ps allImages
                 (lg @ [IgnoringBlacklisted (Name img)]))"

fun blacklistItems ::
  "regexp_lib \<Rightarrow> string list \<Rightarrow> resource list \<Rightarrow> resource list \<Rightarrow> log_entry list \<Rightarrow>
   log_entry list \<times> (error + resource list)" where
  "blacklistItems rx blacklist [] allImages lg = (lg, Inr allImages)"
| "blacklistItems rx blacklist (img # items) allImages lg =
     (case blacklistPatterns rx img blacklist allImages lg of
        (lg', Inl e) \<Rightarrow> (lg', Inl e)
      | (lg', Inr allImages') \<Rightarrow> blacklistItems rx blacklist items allImages' lg')"

text \<open>
  The listing loop. \<open>listCall token\<close> is the answer of the API to the listing call with
  that page token (the first call has the empty token). The loop ends at an error or at
  a page without a next token; an API that always names a next page keeps it running,
  which is the value \<open>None\<close>. \<open>what\<close> is the text of the error message, the only
  difference between the loop for images and the loop for instances.
\<close>

partial_function (option) listPages ::
  "regexp_lib \<Rightarrow> string \<Rightarrow> (string \<Rightarrow> error + page) \<Rightarrow> string list \<Rightarrow> string \<Rightarrow>
   resource list \<Rightarrow> log_entry list \<Rightarrow> (log_entry list \<times> (error + resource list)) option" where
  "listPages rx what listCall blacklist token allImages lg =
     (case listCall token of
        Inl err \<Rightarrow> Some (lg, Inl (Errorf what err))
      | Inr imageList \<Rightarrow>
          (case blacklistItems rx blacklist (pageItems imageList) allImages lg of
             (lg', Inl e) \<Rightarrow> Some (lg', Inl e)
           | (lg', Inr allImages') \<Rightarrow>
               if NextPageToken imageList = [] then Some (lg', Inr allImages')
               else listPages rx what listCall blacklist (NextPageToken imageList) allImages' lg'))"

declare listPages.simps [code]

text \<open>
  \<^verbatim>\<open>getNonSingletonImages\<close>: the first resource of every naming scheme is entered into
  the map and left out, every later one of that scheme is appended to the result. The
  Go map is an association list here, so that the closing loop over the map can be
  written; Go ranges over a map in no fixed order, the list gives the keys in the order
  of their insertion.
\<close>

fun nonSingletonsLoop ::
  "string \<Rightarrow> resource list \<Rightarrow> (string \<times> string) list \<Rightarrow> resource list \<Rightarrow> log_entry list \<Rightarrow>
   log_entry list \<times> (error + (string \<times> string) list \<times> resource list)" where
  "nonSingletonsLoop nameDelimiter [] nonSingletonsMap nonSingletons lg =
     (lg, Inr (nonSingletonsMap, nonSingletons))"
| "nonSingletonsLoop nameDelimiter (img # rest) nonSingletonsMap nonSingletons lg =
     (case getResourceName (Name img) nameDelimiter of
        None \<Rightarrow> (lg, Inl (Panic ''slice bounds out of range''))
      | Some k \<Rightarrow>
          (case map_of nonSingletonsMap k of
             None \<Rightarrow>
               nonSingletonsLoop nameDelimiter rest (nonSingletonsMap @ [(k, ''yes'')])
                 nonSingletons
                 (lg @ [ExcludedNewestOfKind (Name img) (CreationTimestamp img)])
           | Some v \<Rightarrow>
               nonSingletonsLoop nameDelimiter rest nonSingletonsMap
                 (nonSingletons @ [img])
                 (lg @ [EligibleNotSingleton (Name img) (CreationTimestamp img)])))"

definition getNonSingletonImages ::
  "resource list \<Rightarrow> string \<Rightarrow> log_entry list \<Rightarrow> log_entry list \<times> (error + resource list)" where
  "getNonSingletonImages imageList nameDelimiter lg =
     (case nonSingletonsLoop nameDelimiter imageList [] [] lg of
        (lg', Inl e) \<Rightarrow> (lg', Inl e)
      | (lg', Inr (nonSingletonsMap, nonSingletons)) \<Rightarrow>
          (lg' @ map (\<lambda>(k, v). SchemeIsSingleton k)
                   (filter (\<lambda>(k, v). v = ''yes'') nonSingletonsMap),
           Inr nonSingletons))"

text \<open>
  \<^verbatim>\<open>getNonSingletonInstances\<close> is the same function on instances; the two differ in the
  element type and in the word image or instance of their log lines.
\<close>

definition getNonSingletonInstances ::
  "resource list \<Rightarrow> string \<Rightarrow> log_entry list \<Rightarrow> log_entry list \<times> (error + resource list)" where
  "getNonSingletonInstances instanceList nameDelimiter lg =
     getNonSingletonImages instanceList nameDelimiter lg"

text \<open>
  \<^verbatim>\<open>getOldImages\<close>: a timestamp that does not parse ends the function with an error
  and no list; otherwise the image is appended when its stamp is before \<open>t\<close>.
\<close>

fun oldImagesLoop ::
  "time_parser \<Rightarrow> time \<Rightarrow> resource list \<Rightarrow> resource list \<Rightarrow> log_entry list \<Rightarrow>
   log_entry list \<times> (error + resource list)" where
  "oldImagesLoop parse t [] oldImages lg = (lg, Inr oldImages)"
| "oldImagesLoop parse t (img # rest) oldImages lg =
     (case parse (CreationTimestamp img) of
        None \<Rightarrow>
          (lg, Inl (Errorf ''utils.go: Failed to parse timestamp''
                      (ParseError (CreationTimestamp img))))
      | Some stamp \<Rightarrow>
          if stamp < t
          then oldImagesLoop parse t rest (oldImages @ [img])
                 (lg @ [SelectedOlderThan (Name img) (CreationTimestamp img) t])
          else oldImagesLoop parse t rest oldImages
                 (lg @ [ExcludedNewerThan (Name img) (CreationTimestamp img) t]))"

definition getOldImages ::
  "time_parser \<Rightarrow> resource list \<Rightarrow> time \<Rightarrow> log_entry list \<Rightarrow>
   log_entry list \<times> (error + resource list)" where
  "getOldImages parse i t lg = oldImagesLoop parse t i [] lg"

definition getOldInstances ::
  "time_parser \<Rightarrow> resource list \<Rightarrow> time \<Rightarrow> log_entry list \<Rightarrow>
   log_entry list \<times> (error + resource list)" where
  "getOldInstances parse i t lg = oldImagesLoop parse t i [] lg"

text \<open>
  \<^verbatim>\<open>GetOldAndNonSingletonImages\<close>: list and blacklist, then the singleton stage unless
  \<^verbatim>\<open>deleteSingletons\<close> is set, then the age stage. \<open>imagesList\<close> is the listing call of
  the project's images.
\<close>

definition GetOldAndNonSingletonImages ::
  "regexp_lib \<Rightarrow> time_parser \<Rightarrow> (string \<Rightarrow> error + page) \<Rightarrow> time \<Rightarrow> bool \<Rightarrow> string list \<Rightarrow>
   string \<Rightarrow> (log_entry list \<times> (error + resource list)) option" where
  "GetOldAndNonSingletonImages rx parse imagesList t deleteSingletons blacklist nameDelimiter =
     (case listPages rx ''utils.go: Error getting images'' imagesList blacklist [] [] [] of
        None \<Rightarrow> None
      | Some (lg, Inl e) \<Rightarrow> Some (lg, Inl e)
      | Some (lg, Inr allImages) \<Rightarrow>
          (case (if \<not> deleteSingletons then getNonSingletonImages allImages nameDelimiter lg
                 else (lg, Inr allImages)) of
             (lg', Inl e) \<Rightarrow> Some (lg', Inl e)
           | (lg', Inr nonSingletonImages) \<Rightarrow>
               (case getOldImages parse nonSingletonImages t lg' of
                  (lg'', Inl err) \<Rightarrow>
                    Some (lg'', Inl (Errorf ''utils.go: Unable to get old images'' err))
                | (lg'', Inr oldAndNonSingletonImages) \<Rightarrow>
                    Some (lg'', Inr oldAndNonSingletonImages))))"

text \<open>
  \<^verbatim>\<open>GetOldAndNonSingletonInstances\<close> lists the zones first (an error there is fatal)
  and runs the listing loop once for every zone, on the same slice.
\<close>

fun listZones ::
  "regexp_lib \<Rightarrow> (string \<Rightarrow> string \<Rightarrow> error + page) \<Rightarrow> string list \<Rightarrow> string list \<Rightarrow>
   resource list \<Rightarrow> log_entry list \<Rightarrow> (log_entry list \<times> (error + resource list)) option" where
  "listZones rx instancesList blacklist [] allInstances lg = Some (lg, Inr allInstances)"
| "listZones rx instancesList blacklist (zone # zones) allInstances lg =
     (case listPages rx ''utils.go: Error getting instances'' (instancesList zone) blacklist []
             allInstances lg of
        None \<Rightarrow> None
      | Some (lg', Inl e) \<Rightarrow> Some (lg', Inl e)
      | Some (lg', Inr allInstances') \<Rightarrow>
          listZones rx instancesList blacklist zones allInstances' lg')"

definition GetOldAndNonSingletonInstances ::
  "regexp_lib \<Rightarrow> time_parser \<Rightarrow> (error + string list) \<Rightarrow> (string \<Rightarrow> string \<Rightarrow> error + page) \<Rightarrow>
   time \<Rightarrow> bool \<Rightarrow> string list \<Rightarrow> string \<Rightarrow>
   (log_entry list \<times> (error + resource list)) option" where
  "GetOldAndNonSingletonInstances rx parse zonesList instancesList t deleteSingletons blacklist
     nameDelimiter =
     (case zonesList of
        Inl err \<Rightarrow> Some ([FatalLine ''utils.go: Unable to get list of zones''],
                         Inl (Fatal ''utils.go: Unable to get list of zones''))
      | Inr zones \<Rightarrow>
          (case listZones rx instancesList blacklist zones [] [] of
             None \<Rightarrow> None
           | Some (lg, Inl e) \<Rightarrow> Some (lg, Inl e)
           | Some (lg, Inr allInstances) \<Rightarrow>
               (case (if \<not> deleteSingletons
                      then getNonSingletonInstances allInstances nameDelimiter lg
                      else (lg, Inr allInstances)) of
                  (lg', Inl e) \<Rightarrow> Some (lg', Inl e)
                | (lg', Inr nonSingletonInstances) \<Rightarrow>
                    (case getOldInstances parse nonSingletonInstances t lg' of
                       (lg'', Inl err) \<Rightarrow>
                         Some (lg'', Inl (Errorf ''utils.go: Unable to get old instances'' err))
                     | (lg'', Inr oldAndNonSingletonInstances) \<Rightarrow>
                         Some (lg'', Inr oldAndNonSingletonInstances)))))"

section \<open>The singleton stage of the older utils\<close>

text \<open>
  \<^verbatim>\<open>getNonSingletonImages\<close> of \<^verbatim>\<open>tools/resource-janitor/pkg/utils/utils.go\<close> compares
  every resource with the one listed before it (\<^verbatim>\<open>getNonSingletonInstances\<close> of that file
  is the same function on instances). \<open>prev\<close> is \<^verbatim>\<open>imageList[i-1]\<close>, the list
  argument starts at \<^verbatim>\<open>imageList[i]\<close>, and \<open>singleton\<close> is the variable of that name
  (the empty image when its name is empty).
\<close>

fun adjacentLoop ::
  "string \<Rightarrow> resource \<Rightarrow> resource list \<Rightarrow> resource \<Rightarrow> resource list \<Rightarrow> log_entry list \<Rightarrow>
   log_entry list \<times> (error + resource list)" where
  "adjacentLoop nameDelimiter prev [] singleton nonSingletons lg = (lg, Inr nonSingletons)"
| "adjacentLoop nameDelimiter prev (cur # rest) singleton nonSingletons lg =
     (case resourceNamesMatch (Name prev) (Name cur) nameDelimiter of
        None \<Rightarrow> (lg, Inl (Panic ''slice bounds out of range''))
      | Some True \<Rightarrow>
          adjacentLoop nameDelimiter cur rest
            \<lparr>Name = [], CreationTimestamp = [], Zone = []\<rparr>
            (nonSingletons @ [prev])
            (lg @ (if rest = []
                   then [ExcludedMostRecentOfType (Name cur) (CreationTimestamp cur)] else []))
      | Some False \<Rightarrow>
          if Name singleton \<noteq> []
          then adjacentLoop nameDelimiter cur rest cur nonSingletons
                 (lg @ [ExcludedSingleton (Name cur) (CreationTimestamp cur)])
          else adjacentLoop nameDelimiter cur rest cur nonSingletons
                 (lg @ [ExcludedMostRecentOfType (Name prev) (CreationTimestamp prev)] @
                    (if rest = []
                     then [ExcludedSingleton (Name cur) (CreationTimestamp cur)] else [])))"

definition getNonSingletonImages_adjacent ::
  "resource list \<Rightarrow> string \<Rightarrow> log_entry list \<Rightarrow> log_entry list \<times> (error + resource list)" where
  "getNonSingletonImages_adjacent imageList nameDelimiter lg =
     (case imageList of
        [] \<Rightarrow> (lg, Inr [])
      | first # rest \<Rightarrow> adjacentLoop nameDelimiter first rest first [] lg)"

section \<open>The janitor packages for images and instances\<close>

text \<open>
  \<^verbatim>\<open>JanitorMetadata\<close> of the packages \<^verbatim>\<open>images\<close> and \<^verbatim>\<open>instances\<close>, without the
  handle of the API client. \<^verbatim>\<open>NewJanitorMetadata\<close> sets four of the fields: the list of
  blacklist patterns it is given is not stored, and the items are filled in by
  \<^verbatim>\<open>Refresh\<close>.
\<close>

record JanitorMetadata =
  Project :: string
  Items :: "resource list"
  ExpiredBefore :: time
  DeleteSingletons :: bool
  BlacklistPatterns :: "string list"
  NameDelimiter :: string

definition NewJanitorMetadata ::
  "string \<Rightarrow> time \<Rightarrow> bool \<Rightarrow> string list \<Rightarrow> string \<Rightarrow> JanitorMetadata" where
  "NewJanitorMetadata p e d b n =
     \<lparr>Project = p, Items = [], ExpiredBefore = e, DeleteSingletons = d,
      BlacklistPatterns = [], NameDelimiter = n\<rparr>"

text \<open>
  \<^verbatim>\<open>Blacklist\<close>, the same in both packages: nothing happens without patterns; otherwise
  the loop over items and patterns is the one of the utils, and its result replaces the
  items.
\<close>

definition Blacklist ::
  "regexp_lib \<Rightarrow> JanitorMetadata \<Rightarrow> log_entry list \<Rightarrow>
   log_entry list \<times> (error + JanitorMetadata)" where
  "Blacklist rx i lg =
     (if length (BlacklistPatterns i) = 0 then (lg @ [NoBlacklistPatterns], Inr i)
      else case blacklistItems rx (BlacklistPatterns i) (Items i) [] lg of
             (lg', Inl e) \<Rightarrow> (lg', Inl e)
           | (lg', Inr bi) \<Rightarrow> (lg', Inr (i\<lparr>Items := bi\<rparr>)))"

text \<open>
  \<^verbatim>\<open>Singletons\<close>, the same in both packages. The map \<^verbatim>\<open>nsm\<close> takes a basename to the
  name seen last and to whether it has been seen once only; the field
  \<^verbatim>\<open>DeleteSingletons\<close> is not read.
\<close>

fun singletonsLoop ::
  "string \<Rightarrow> resource list \<Rightarrow> (string \<times> string \<times> bool) list \<Rightarrow> resource list \<Rightarrow>
   log_entry list \<Rightarrow>
   log_entry list \<times> (error + (string \<times> string \<times> bool) list \<times> resource list)" where
  "singletonsLoop nameDelimiter [] nsm il lg = (lg, Inr (nsm, il))"
| "singletonsLoop nameDelimiter (im # rest) nsm il lg =
     (case GetResourceBasename (Name im) nameDelimiter of
        None \<Rightarrow> (lg, Inl (Panic ''slice bounds out of range''))
      | Some k \<Rightarrow>
          (case map_of nsm k of
             None \<Rightarrow>
               singletonsLoop nameDelimiter rest (AList.update k (Name im, True) nsm) il
                 (lg @ [ExcludedNewestOfKind (Name im) (CreationTimestamp im)])
           | Some v \<Rightarrow>
               singletonsLoop nameDelimiter rest (AList.update k (Name im, False) nsm)
                 (il @ [im])
                 (lg @ [EligibleNotSingleton (Name im) (CreationTimestamp im)])))"

definition Singletons ::
  "JanitorMetadata \<Rightarrow> log_entry list \<Rightarrow> log_entry list \<times> (error + JanitorMetadata)" where
  "Singletons i lg =
     (case singletonsLoop (NameDelimiter i) (Items i) [] [] lg of
        (lg', Inl e) \<Rightarrow> (lg', Inl e)
      | (lg', Inr (nsm, il)) \<Rightarrow>
          (lg' @ map (\<lambda>(k, name, single). SchemeIsSingleton name)
                   (filter (\<lambda>(k, name, single). single = True) nsm),
           Inr (i\<lparr>Items := il\<rparr>)))"

text \<open>
  \<^verbatim>\<open>Expired\<close>. A timestamp that does not parse is fatal. In the package \<^verbatim>\<open>images\<close> the
  test is \<^verbatim>\<open>stamp.Before(stamp)\<close>, in the package \<^verbatim>\<open>instances\<close> it is
  \<^verbatim>\<open>stamp.Before(i.ExpiredBefore)\<close>. Both append the resources of the else branch to a
  local slice, and neither assigns that slice to the items.
\<close>

fun expiredLoopImages ::
  "time_parser \<Rightarrow> time \<Rightarrow> resource list \<Rightarrow> resource list \<Rightarrow> log_entry list \<Rightarrow>
   log_entry list \<times> (error + resource list)" where
  "expiredLoopImages parse expiredBefore [] iml lg = (lg, Inr iml)"
| "expiredLoopImages parse expiredBefore (inst # rest) iml lg =
     (case parse (CreationTimestamp inst) of
        None \<Rightarrow> (lg @ [FatalLine ''Failed to parse timestamp''],
                  Inl (Fatal ''Failed to parse timestamp''))
      | Some stamp \<Rightarrow>
          if stamp < stamp
          then expiredLoopImages parse expiredBefore rest iml
                 (lg @ [OlderThanExpiredBy (Name inst) (CreationTimestamp inst) expiredBefore])
          else expiredLoopImages parse expiredBefore rest (iml @ [inst])
                 (lg @ [NewerThanExpiredBy (Name inst) (CreationTimestamp inst) expiredBefore]))"

definition Expired_images ::
  "time_parser \<Rightarrow> JanitorMetadata \<Rightarrow> log_entry list \<Rightarrow>
   log_entry list \<times> (error + JanitorMetadata)" where
  "Expired_images parse i lg =
     (case expiredLoopImages parse (ExpiredBefore i) (Items i) [] lg of
        (lg', Inl e) \<Rightarrow> (lg', Inl e)
      | (lg', Inr iml) \<Rightarrow> (lg', Inr i))"

fun expiredLoopInstances ::
  "time_parser \<Rightarrow> time \<Rightarrow> resource list \<Rightarrow> resource list \<Rightarrow> log_entry list \<Rightarrow>
   log_entry list \<times> (error + resource list)" where
  "expiredLoopInstances parse expiredBefore [] inl lg = (lg, Inr inl)"
| "expiredLoopInstances parse expiredBefore (inst # rest) inl lg =
     (case parse (CreationTimestamp inst) of
        None \<Rightarrow> (lg @ [FatalLine ''Failed to parse timestamp''],
                  Inl (Fatal ''Failed to parse timestamp''))
      | Some stamp \<Rightarrow>
          if stamp < expiredBefore
          then expiredLoopInstances parse expiredBefore rest inl
                 (lg @ [OlderThanExpiredBy (Name inst) (CreationTimestamp inst) expiredBefore])
          else expiredLoopInstances parse expiredBefore rest (inl @ [inst])
                 (lg @ [NewerThanExpiredBy (Name inst) (CreationTimestamp inst) expiredBefore]))"

definition Expired_instances ::
  "time_parser \<Rightarrow> JanitorMetadata \<Rightarrow> log_entry list \<Rightarrow>
   log_entry list \<times> (error + JanitorMetadata)" where
  "Expired_instances parse i lg =
     (case expiredLoopInstances parse (ExpiredBefore i) (Items i) [] lg of
        (lg', Inl e) \<Rightarrow> (lg', Inl e)
      | (lg', Inr inl) \<Rightarrow> (lg', Inr i))"

text \<open>
  The three stages as the janitor's \<^verbatim>\<open>deleteImages\<close> and \<^verbatim>\<open>deleteInstances\<close> call them
  after \<^verbatim>\<open>Refresh\<close>: \<^verbatim>\<open>i.Blacklist(); i.Singletons(); i.Expired()\<close>. The items of the
  result are what \<^verbatim>\<open>Delete\<close> hands to the deletion engine.
\<close>

definition janitorStages ::
  "regexp_lib \<Rightarrow> (JanitorMetadata \<Rightarrow> log_entry list \<Rightarrow> log_entry list \<times> (error + JanitorMetadata)) \<Rightarrow>
   JanitorMetadata \<Rightarrow> log_entry list \<times> (error + JanitorMetadata)" where
  "janitorStages rx expired i =
     (case Blacklist rx i [] of
        (lg, Inl e) \<Rightarrow> (lg, Inl e)
      | (lg, Inr i1) \<Rightarrow>
          (case Singletons i1 lg of
             (lg', Inl e) \<Rightarrow> (lg', Inl e)
           | (lg', Inr i2) \<Rightarrow> expired i2 lg'))"

section \<open>The deletion engine\<close>

text \<open>
  The fields of \<^verbatim>\<open>compute.Operation\<close> that the workers read, the delete calls they
  issue and the status queries they build. The API is two parameters: \<open>del\<close> answers a
  delete call, \<open>get q k\<close> answers the status query \<open>q\<close> when it is done for the
  \<open>k\<close>-th time (counted from 0).
\<close>

record operation =
  opName :: string
  Status :: string
  opZone :: string
  Region :: string
  TargetLink :: string

datatype call =
    ImagesDelete string string
  | InstancesDelete string string string

datatype query =
    ZoneOperationsGet string string string
  | RegionOperationsGet string string string
  | GlobalOperationsGet string string

datatype event =
    Logged log_entry
  | IssuedDelete call
  | StatusQueried query "error + operation"
  | InvokeParallelImages int "resource list"
  | InvokeParallelInstances int "resource list"

text \<open>
  How the run of a worker ends: it returns, or the whole process ends with it, by
  \<^verbatim>\<open>log.Fatalf\<close> (exit status 1) or by a run-time panic (exit status 2).
\<close>

datatype worker_end = WorkerStopped | ProcessExited | ProcessPanicked

text \<open>
  The polling loop of \<^verbatim>\<open>deleteWorker\<close>, in both packages: sleep, query, leave the process
  when the query fails, leave the loop when the status is \<^verbatim>\<open>"DONE"\<close>, go round again
  otherwise. The result is the list of the answers received, the last of which ended
  the loop; \<open>None\<close> is a loop that never ends.
\<close>

partial_function (option) pollLoop ::
  "(nat \<Rightarrow> error + operation) \<Rightarrow> nat \<Rightarrow> (error + operation) list \<Rightarrow>
   (error + operation) list option" where
  "pollLoop queryDeleteOperation k answers =
     (case queryDeleteOperation k of
        Inl err \<Rightarrow> Some (answers @ [Inl err])
      | Inr deleteOperation \<Rightarrow>
          if Status deleteOperation = ''DONE'' then Some (answers @ [Inr deleteOperation])
          else pollLoop queryDeleteOperation (Suc k) (answers @ [Inr deleteOperation]))"

declare pollLoop.simps [code]

definition operationQuery :: "string \<Rightarrow> operation \<Rightarrow> query" where
  "operationQuery project deleteOperation =
     (if opZone deleteOperation \<noteq> []
      then ZoneOperationsGet project (sanitizeResourceURL (opZone deleteOperation))
             (opName deleteOperation)
      else if Region deleteOperation \<noteq> []
      then RegionOperationsGet project (sanitizeResourceURL (Region deleteOperation))
             (opName deleteOperation)
      else GlobalOperationsGet project (opName deleteOperation))"

text \<open>
  \<^verbatim>\<open>deleteWorker\<close> of the resource-janitor, run on the calls it receives from the
  channel, in the order it receives them. A delete call that fails is logged with
  \<^verbatim>\<open>log.Fatalf\<close>, which ends the process, so the events of the run stop there. A status
  query that fails returns no operation with its error (\<^verbatim>\<open>Do\<close> returns \<^verbatim>\<open>nil, err\<close>), and
  the arguments of the \<^verbatim>\<open>log.Fatalf\<close> that follows are evaluated first:
  \<^verbatim>\<open>deleteOperation.Name\<close> is read through the nil pointer, and the worker panics before
  a line is logged. No panic is recovered, so the process ends there too.
\<close>

fun deleteWorker ::
  "(call \<Rightarrow> error + operation) \<Rightarrow> (query \<Rightarrow> nat \<Rightarrow> error + operation) \<Rightarrow> string \<times> nat \<Rightarrow>
   string \<Rightarrow> call list \<Rightarrow> (event list \<times> worker_end) option" where
  "deleteWorker del get wid project [] =
     Some ([Logged (WorkerStopping (fst wid) (snd wid))], WorkerStopped)"
| "deleteWorker del get wid project (c # rest) =
     (case del c of
        Inl err \<Rightarrow>
          Some ([IssuedDelete c, Logged (FatalLine ''Unable to issue delete call'')],
                ProcessExited)
      | Inr deleteOperation \<Rightarrow>
          (case pollLoop (get (operationQuery project deleteOperation)) 0 [] of
             None \<Rightarrow> None
           | Some answers \<Rightarrow>
               (case last answers of
                  Inl err \<Rightarrow>
                    Some (IssuedDelete c #
                          map (StatusQueried (operationQuery project deleteOperation)) answers,
                          ProcessPanicked)
                | Inr done \<Rightarrow>
                    (case deleteWorker del get wid project rest of
                       None \<Rightarrow> None
                     | Some (evs, e) \<Rightarrow>
                         Some (IssuedDelete c #
                               map (StatusQueried (operationQuery project deleteOperation))
                                 answers @
                               [Logged (DeletedResource (TargetLink done))] @ evs, e)))))"

text \<open>
  \<^verbatim>\<open>deleteWorker\<close> of the janitor's package \<^verbatim>\<open>delete\<close>. It logs that it starts, the
  project comes from the call, and every answer that is not \<^verbatim>\<open>"DONE"\<close> writes a log
  line. The two error paths are those of the resource-janitor: \<^verbatim>\<open>Fatal\<close> of logrus
  after a failed delete call, and after a failed query the field
  \<^verbatim>\<open>deleteOperation.Name\<close> of the fatal entry is read through the nil pointer.
  \<open>deleteWorker_janitor_calls\<close> is the loop over the channel.
\<close>

fun callProject :: "call \<Rightarrow> string" where
  "callProject (ImagesDelete project name) = project"
| "callProject (InstancesDelete project zone name) = project"

fun answerEvents :: "query \<Rightarrow> error + operation \<Rightarrow> event list" where
  "answerEvents q (Inl err) = [StatusQueried q (Inl err)]"
| "answerEvents q (Inr deleteOperation) =
     (if Status deleteOperation = ''DONE'' then [StatusQueried q (Inr deleteOperation)]
      else [StatusQueried q (Inr deleteOperation),
            Logged (DeletingResource (TargetLink deleteOperation))])"

fun deleteWorker_janitor_calls ::
  "(call \<Rightarrow> error + operation) \<Rightarrow> (query \<Rightarrow> nat \<Rightarrow> error + operation) \<Rightarrow> string \<times> nat \<Rightarrow>
   call list \<Rightarrow> (event list \<times> worker_end) option" where
  "deleteWorker_janitor_calls del get wid [] =
     Some ([Logged (WorkerStopping (fst wid) (snd wid))], WorkerStopped)"
| "deleteWorker_janitor_calls del get wid (c # rest) =
     (case del c of
        Inl err \<Rightarrow>
          Some ([IssuedDelete c, Logged (FatalLine ''Unable to issue delete call'')],
                ProcessExited)
      | Inr deleteOperation \<Rightarrow>
          (case pollLoop (get (operationQuery (callProject c) deleteOperation)) 0 [] of
             None \<Rightarrow> None
           | Some answers \<Rightarrow>
               (case last answers of
                  Inl err \<Rightarrow>
                    Some (IssuedDelete c #
                          concat (map (answerEvents
                                         (operationQuery (callProject c) deleteOperation))
                                    answers),
                          ProcessPanicked)
                | Inr done \<Rightarrow>
                    (case deleteWorker_janitor_calls del get wid rest of
                       None \<Rightarrow> None
                     | Some (evs, e) \<Rightarrow>
                         Some (IssuedDelete c #
                               concat (map (answerEvents
                                              (operationQuery (callProject c) deleteOperation))
                                         answers) @
                               [Logged (DeletedResource (TargetLink done))] @ evs, e)))))"

definition deleteWorker_janitor ::
  "(call \<Rightarrow> error + operation) \<Rightarrow> (query \<Rightarrow> nat \<Rightarrow> error + operation) \<Rightarrow> string \<times> nat \<Rightarrow>
   call list \<Rightarrow> (event list \<times> worker_end) option" where
  "deleteWorker_janitor del get wid calls =
     (case deleteWorker_janitor_calls del get wid calls of
        None \<Rightarrow> None
      | Some (evs, e) \<Rightarrow> Some (Logged (WorkerStarting (fst wid) (snd wid)) # evs, e))"

text \<open>
  The engines. \<^verbatim>\<open>ParallelImages\<close> and \<^verbatim>\<open>ParallelInstances\<close> make a channel of capacity
  \<^verbatim>\<open>workers\<close>, start that many workers, send one delete call per resource, close the
  channel, wait for the workers and return \<^verbatim>\<open>nil\<close>. \<^verbatim>\<open>make\<close> panics when the capacity is
  negative or more than the run-time can allocate (\<^verbatim>\<open>makechan: size out of range\<close>);
  \<open>chanLimit\<close>, the largest capacity it can, depends on the machine and is a parameter. Which worker receives which call
  is decided by the Go scheduler: \<open>sched jobs w\<close> is the list of calls that worker \<open>w\<close>
  receives, and the id of a worker is the pair of the text and the number that
  \<^verbatim>\<open>fmt.Sprintf\<close> joins. The engine ends with the process when a worker ends the
  process, it does not return when a worker does not, and without workers the first
  send blocks, so that it does not return unless there is nothing to send. A worker that
  panics runs its deferred \<^verbatim>\<open>wg.Done()\<close> before the run-time ends the process, so that
  the engine may be released in between; this race of the last moments of the process is
  not followed, and the end of the process is taken as the end of the engine.
\<close>

datatype engine_end = Returned "error option" | EngineExit | EngineNoReturn

definition endsProcess :: "(event list \<times> worker_end) option \<Rightarrow> bool" where
  "endsProcess r =
     (map_option snd r = Some ProcessExited \<or> map_option snd r = Some ProcessPanicked)"

definition engineEnd :: "(event list \<times> worker_end) option list \<Rightarrow> engine_end" where
  "engineEnd runs =
     (if list_ex endsProcess runs then EngineExit
      else if list_ex (\<lambda>r. r = None) runs then EngineNoReturn
      else Returned None)"

definition runEngine ::
  "(string \<times> nat \<Rightarrow> call list \<Rightarrow> (event list \<times> worker_end) option) \<Rightarrow> string \<Rightarrow> int \<Rightarrow>
   call list \<Rightarrow> (call list \<Rightarrow> nat \<Rightarrow> call list) \<Rightarrow> nat \<Rightarrow> engine_end" where
  "runEngine worker workerName workers jobs sched chanLimit =
     (if workers < 0 \<or> int chanLimit < workers then EngineExit
      else if workers = 0 then (if jobs = [] then Returned None else EngineNoReturn)
      else engineEnd
             (map (\<lambda>w. worker (workerName, w) (sched jobs w))
                [0..<nat workers]))"

definition ParallelImages ::
  "(call \<Rightarrow> error + operation) \<Rightarrow> (query \<Rightarrow> nat \<Rightarrow> error + operation) \<Rightarrow> string \<Rightarrow> int \<Rightarrow>
   resource list \<Rightarrow> (call list \<Rightarrow> nat \<Rightarrow> call list) \<Rightarrow> nat \<Rightarrow> engine_end" where
  "ParallelImages del get project workers imageList sched chanLimit =
     runEngine (\<lambda>wid. deleteWorker del get wid project) ''image-worker-'' workers
       (map (\<lambda>img. ImagesDelete project (Name img)) imageList) sched chanLimit"

definition ParallelInstances ::
  "(call \<Rightarrow> error + operation) \<Rightarrow> (query \<Rightarrow> nat \<Rightarrow> error + operation) \<Rightarrow> string \<Rightarrow> int \<Rightarrow>
   resource list \<Rightarrow> (call list \<Rightarrow> nat \<Rightarrow> call list) \<Rightarrow> nat \<Rightarrow> engine_end" where
  "ParallelInstances del get project workers instanceList sched chanLimit =
     runEngine (\<lambda>wid. deleteWorker del get wid project) ''delete.go: instance-worker-'' workers
       (map (\<lambda>instance. InstancesDelete project (sanitizeResourceURL (Zone instance))
                           (Name instance)) instanceList) sched chanLimit"

text \<open>
  \<^verbatim>\<open>Parallel\<close> of the janitor's package \<^verbatim>\<open>delete\<close>; \<open>jobs\<close> are the calls that the
  \<^verbatim>\<open>Delete\<close> method of the metadata sends, one per item.
\<close>

definition Parallel ::
  "(call \<Rightarrow> error + operation) \<Rightarrow> (query \<Rightarrow> nat \<Rightarrow> error + operation) \<Rightarrow> int \<Rightarrow> call list \<Rightarrow>
   (call list \<Rightarrow> nat \<Rightarrow> call list) \<Rightarrow> nat \<Rightarrow> engine_end" where
  "Parallel del get workers jobs sched chanLimit =
     runEngine (deleteWorker_janitor del get) ''instance-worker-'' workers jobs sched chanLimit"


definition jobDone ::
  "(call \<Rightarrow> error + operation) \<Rightarrow> (query \<Rightarrow> nat \<Rightarrow> error + operation) \<Rightarrow> string \<Rightarrow> call \<Rightarrow> bool" where
  "jobDone del get project c =
     (case del c of
        Inl err \<Rightarrow> False
      | Inr deleteOperation \<Rightarrow>
          (case pollLoop (get (operationQuery project deleteOperation)) 0 [] of
             None \<Rightarrow> False
           | Some answers \<Rightarrow> \<not> isl (last answers)))"

definition jobFails ::
  "(call \<Rightarrow> error + operation) \<Rightarrow> (query \<Rightarrow> nat \<Rightarrow> error + operation) \<Rightarrow> string \<Rightarrow> call \<Rightarrow> bool" where
  "jobFails del get project c =
     (case del c of
        Inl err \<Rightarrow> True
      | Inr deleteOperation \<Rightarrow>
          (case pollLoop (get (operationQuery project deleteOperation)) 0 [] of
             None \<Rightarrow> False
           | Some answers \<Rightarrow> isl (last answers)))"

section \<open>The command\<close>

text \<open>
  \<^verbatim>\<open>deleteImages\<close> and \<^verbatim>\<open>deleteInstances\<close> of the resource-janitor's \<^verbatim>\<open>main.go\<close>: select,
  say so when nothing was selected, and start the engine only when \<^verbatim>\<open>notDryRun\<close> is
  set. The result is the list of events of the run and how it ends: with
  \<^verbatim>\<open>wg.Done()\<close>, with the end of the process, or not at all.
\<close>

datatype ending = WgDone | ProcessExit | NoReturn

fun processEnded :: "error \<Rightarrow> bool" where
  "processEnded (Fatal m) = True"
| "processEnded (Panic m) = True"
| "processEnded e = False"

definition deleteImages ::
  "regexp_lib \<Rightarrow> time_parser \<Rightarrow> (string \<Rightarrow> error + page) \<Rightarrow> (call \<Rightarrow> error + operation) \<Rightarrow>
   (query \<Rightarrow> nat \<Rightarrow> error + operation) \<Rightarrow> (call list \<Rightarrow> nat \<Rightarrow> call list) \<Rightarrow> nat \<Rightarrow>
   string \<Rightarrow> time \<Rightarrow> string \<Rightarrow> int \<Rightarrow> bool \<Rightarrow> bool \<Rightarrow> string list \<Rightarrow> event list \<times> ending" where
  "deleteImages rx parse imagesList del get sched chanLimit project tooOld nameDelimiter
     workers notDryRun deleteSingletons blacklist =
     (case GetOldAndNonSingletonImages rx parse imagesList tooOld deleteSingletons blacklist
             nameDelimiter of
        None \<Rightarrow> ([], NoReturn)
      | Some (lg, Inl err) \<Rightarrow>
          (map Logged lg @
             (if processEnded err then []
              else [Logged (FatalLine ''main.go: unable to get list of images'')]),
           ProcessExit)
      | Some (lg, Inr images) \<Rightarrow>
          (let evs = map Logged lg @ (if length images = 0 then [Logged NothingToDelete] else [])
           in if notDryRun
              then (case ParallelImages del get project workers images sched chanLimit of
                      Returned None \<Rightarrow>
                        (evs @ [Logged IssuingParallelDelete,
                                InvokeParallelImages workers images,
                                Logged SuccessfullyDeleted], WgDone)
                    | Returned (Some err) \<Rightarrow>
                        (evs @ [Logged IssuingParallelDelete,
                                InvokeParallelImages workers images,
                                Logged (FatalLine ''main.go: deletion exited with an error'')],
                         ProcessExit)
                    | EngineExit \<Rightarrow>
                        (evs @ [Logged IssuingParallelDelete,
                                InvokeParallelImages workers images], ProcessExit)
                    | EngineNoReturn \<Rightarrow>
                        (evs @ [Logged IssuingParallelDelete,
                                InvokeParallelImages workers images], NoReturn))
              else (evs, WgDone)))"

definition deleteInstances ::
  "regexp_lib \<Rightarrow> time_parser \<Rightarrow> (error + string list) \<Rightarrow> (string \<Rightarrow> string \<Rightarrow> error + page) \<Rightarrow>
   (call \<Rightarrow> error + operation) \<Rightarrow> (query \<Rightarrow> nat \<Rightarrow> error + operation) \<Rightarrow>
   (call list \<Rightarrow> nat \<Rightarrow> call list) \<Rightarrow> nat \<Rightarrow> string \<Rightarrow> time \<Rightarrow>
   string \<Rightarrow> int \<Rightarrow> bool \<Rightarrow> bool \<Rightarrow> string list \<Rightarrow> event list \<times> ending" where
  "deleteInstances rx parse zonesList instancesList del get sched chanLimit project tooOld
     nameDelimiter workers notDryRun deleteSingletons blacklist =
     (case GetOldAndNonSingletonInstances rx parse zonesList instancesList tooOld
             deleteSingletons blacklist nameDelimiter of
        None \<Rightarrow> ([], NoReturn)
      | Some (lg, Inl err) \<Rightarrow>
          (map Logged lg @
             (if processEnded err then []
              else [Logged (FatalLine ''main.go: unable to get list of instances'')]),
           ProcessExit)
      | Some (lg, Inr instances) \<Rightarrow>
          (let evs = map Logged lg @
                       (if length instances = 0 then [Logged NothingToDelete] else [])
           in if notDryRun
              then (case ParallelInstances del get project workers instances sched chanLimit of
                      Returned None \<Rightarrow>
                        (evs @ [Logged IssuingParallelDelete,
                                InvokeParallelInstances workers instances,
                                Logged SuccessfullyDeleted], WgDone)
                    | Returned (Some err) \<Rightarrow>
                        (evs @ [Logged IssuingParallelDelete,
                                InvokeParallelInstances workers instances,
                                Logged (FatalLine ''main.go: deletion exited with an error'')],
                         ProcessExit)
                    | EngineExit \<Rightarrow>
                        (evs @ [Logged IssuingParallelDelete,
                                InvokeParallelInstances workers instances], ProcessExit)
                    | EngineNoReturn \<Rightarrow>
                        (evs @ [Logged IssuingParallelDelete,
                                InvokeParallelInstances workers instances], NoReturn))
              else (evs, WgDone)))"

text \<open>The events that are a call of the deletion engine.\<close>

definition isInvoke :: "event \<Rightarrow> bool" where
  "isInvoke ev = (case ev of InvokeParallelImages w rs \<Rightarrow> True
                           | InvokeParallelInstances w rs \<Rightarrow> True | _ \<Rightarrow> False)"

section \<open>Example values\<close>

text \<open>
  Resources for the examples below (\<open>vm1\<close> and \<open>vm2\<close> are instances, in two zones, and
  \<open>instancesByZone\<close> is the listing of the instances of a zone, on one page), and two
  instances of the library parameters:
  \<open>rfc3339_sample\<close> gives the Unix seconds that \<^verbatim>\<open>time.Parse\<close> gives for the three
  timestamps of the examples (any other string is taken not to parse), and
  \<open>literalRegexp\<close> matches a pattern without metacharacters the way \<^verbatim>\<open>MatchString\<close>
  does, wherever the pattern occurs in the name.
\<close>

definition web1 :: resource where
  "web1 = \<lparr>Name = ''web-1'', CreationTimestamp = ''2019-01-01T00:00:00Z'', Zone = []\<rparr>"

definition web2 :: resource where
  "web2 = \<lparr>Name = ''web-2'', CreationTimestamp = ''2019-01-02T00:00:00Z'', Zone = []\<rparr>"

definition api1 :: resource where
  "api1 = \<lparr>Name = ''api-1'', CreationTimestamp = ''2019-01-03T00:00:00Z'', Zone = []\<rparr>"

definition web :: resource where
  "web = \<lparr>Name = ''web'', CreationTimestamp = ''2019-01-01T00:00:00Z'', Zone = []\<rparr>"

definition api :: resource where
  "api = \<lparr>Name = ''api'', CreationTimestamp = ''2019-01-02T00:00:00Z'', Zone = []\<rparr>"

definition web0 :: resource where
  "web0 = \<lparr>Name = ''web-0'', CreationTimestamp = ''2019-01-03T00:00:00Z'', Zone = []\<rparr>"

definition vm1 :: resource where
  "vm1 = \<lparr>Name = ''web-1'', CreationTimestamp = ''2019-01-01T00:00:00Z'',
          Zone = ''projects/p/zones/zone-a''\<rparr>"

definition vm2 :: resource where
  "vm2 = \<lparr>Name = ''web-2'', CreationTimestamp = ''2019-01-02T00:00:00Z'',
          Zone = ''projects/p/zones/zone-b''\<rparr>"

definition instancesByZone :: "string \<Rightarrow> string \<Rightarrow> error + page" where
  "instancesByZone zone token =
     Inr \<lparr>pageItems = (if zone = ''zone-a'' then [vm1]
                        else if zone = ''zone-b'' then [vm2] else []),
          NextPageToken = []\<rparr>"

definition tmp1 :: resource where
  "tmp1 = \<lparr>Name = ''tmp-1'', CreationTimestamp = ''2019-01-01T00:00:00Z'', Zone = []\<rparr>"

definition unstamped :: resource where
  "unstamped = \<lparr>Name = ''web-3'', CreationTimestamp = ''yesterday'', Zone = []\<rparr>"

definition rfc3339_sample :: time_parser where
  "rfc3339_sample s =
     (if s = ''2019-01-01T00:00:00Z'' then Some 1546300800
      else if s = ''2019-01-02T00:00:00Z'' then Some 1546387200
      else if s = ''2019-01-03T00:00:00Z'' then Some 1546473600
      else None)"

definition literalRegexp :: regexp_lib where
  "literalRegexp p = Some (\<lambda>s. sublist p s)"

text \<open>
  A deletion API for the examples: every delete call is accepted, the operation is
  reported as running twice and as done at the third query, and the first worker
  receives all calls.
\<close>

definition opPending :: operation where
  "opPending = \<lparr>opName = ''operation-1'', Status = ''PENDING'', opZone = [], Region = [],
                 TargetLink = ''images/web-1''\<rparr>"

definition deleteAccepted :: "call \<Rightarrow> error + operation" where
  "deleteAccepted c = Inr opPending"

definition doneAtThirdQuery :: "query \<Rightarrow> nat \<Rightarrow> error + operation" where
  "doneAtThirdQuery q k =
     Inr (opPending\<lparr>Status := (if k < 2 then ''RUNNING'' else ''DONE'')\<rparr>)"

definition firstWorkerTakesAll :: "call list \<Rightarrow> nat \<Rightarrow> call list" where
  "firstWorkerTakesAll jobs w = (if w = 0 then jobs else [])"



definition deleteRefusesWeb1 :: "call \<Rightarrow> error + operation" where
  "deleteRefusesWeb1 c =
     (if c = ImagesDelete ''p'' ''web-1'' then Inl (ApiError ''forbidden'') else Inr opPending)"

text \<open>
  A status query that is answered once with a running operation and fails from the
  second time on.
\<close>

definition queryUnavailable :: "query \<Rightarrow> nat \<Rightarrow> error + operation" where
  "queryUnavailable q k =
     (if k = 0 then Inr (opPending\<lparr>Status := ''RUNNING''\<rparr>)
      else Inl (ApiError ''backend unavailable''))"

section \<open>Splitting a name\<close>

text \<open>
  A string without the separator is split into itself alone, and a split at a non-empty
  separator is never empty, so that the naming scheme of a name is defined whenever the
  delimiter is not empty.
\<close>

lemma Index_None_iff: "Index s sep = None \<longleftrightarrow> \<not> sublist sep s"
  by (induction s) (auto simp: sublist_Cons_right)

lemma Split_no_delimiter: "\<not> sublist sep s \<Longrightarrow> Split s sep = [s]"
proof -
  assume a: "\<not> sublist sep s"
  then have "sep \<noteq> []" by auto
  moreover from a have "Index s sep = None" by (simp add: Index_None_iff)
  ultimately show ?thesis by (simp add: Split.simps)
qed

lemma Split_nonempty: "sep \<noteq> [] \<Longrightarrow> Split s sep \<noteq> []"
  by (subst Split.simps) (simp split: option.split)

lemma getResourceName_total:
  "delimiter \<noteq> [] \<Longrightarrow> \<exists>k. getResourceName a delimiter = Some k"
  by (simp add: getResourceName_def Let_def Split_nonempty)

lemma getResourceName_no_delimiter:
  "\<not> sublist delimiter a \<Longrightarrow> getResourceName a delimiter = Some []"
  by (simp add: getResourceName_def Split_no_delimiter)

lemma GetResourceBasename_eq: "GetResourceBasename a d = getResourceName a d"
  by (simp add: GetResourceBasename_def getResourceName_def)

text \<open>
  With the empty separator a string is cut into its UTF-8 sequences, a byte that starts
  none on its own, and the empty string into nothing, where the naming scheme panics.
\<close>

lemma Split_empty_separator_example:
  "Split ''ab'' [] = [''a'', ''b''] \<and>
   Split [CHR ''a'', CHR 0xC3, CHR 0xA9, CHR 0xFF, CHR 0xE2, CHR 0x82, CHR 0xAC, CHR 0xC3] [] =
     [''a'', [CHR 0xC3, CHR 0xA9], [CHR 0xFF], [CHR 0xE2, CHR 0x82, CHR 0xAC], [CHR 0xC3]] \<and>
   Split [] [] = [] \<and> getResourceName [] [] = None \<and>
   getResourceName ''ab'' [] = Some ''a''"
  by code_simp

section \<open>The singleton stage\<close>

lemma nonSingletonsLoop_groups:
  assumes "d \<noteq> []"
  shows "\<exists>lg' m' out. nonSingletonsLoop d xs m ns lg = (lg', Inr (m', out)) \<and>
           (\<forall>k. filter (\<lambda>r. getResourceName (Name r) d = Some k) out =
                filter (\<lambda>r. getResourceName (Name r) d = Some k) ns @
                (if k \<in> fst ` set m then filter (\<lambda>r. getResourceName (Name r) d = Some k) xs
                 else tl (filter (\<lambda>r. getResourceName (Name r) d = Some k) xs)))"
proof (induction xs arbitrary: m ns lg)
  case Nil
  show ?case by simp
next
  case (Cons x xs)
  from assms obtain k0 where k0: "getResourceName (Name x) d = Some k0"
    using getResourceName_total by blast
  show ?case
  proof (cases "map_of m k0")
    case None
    then have notin: "k0 \<notin> fst ` set m" by (simp add: map_of_eq_None_iff)
    from Cons.IH [of "m @ [(k0, ''yes'')]" ns "lg @ [ExcludedNewestOfKind (Name x) (CreationTimestamp x)]"]
    obtain lg' m' out where
      run: "nonSingletonsLoop d xs (m @ [(k0, ''yes'')]) ns
              (lg @ [ExcludedNewestOfKind (Name x) (CreationTimestamp x)]) = (lg', Inr (m', out))"
      and grp: "\<And>k. filter (\<lambda>r. getResourceName (Name r) d = Some k) out =
                filter (\<lambda>r. getResourceName (Name r) d = Some k) ns @
                (if k \<in> fst ` set (m @ [(k0, ''yes'')]) then filter (\<lambda>r. getResourceName (Name r) d = Some k) xs
                 else tl (filter (\<lambda>r. getResourceName (Name r) d = Some k) xs))"
      by blast
    have "nonSingletonsLoop d (x # xs) m ns lg = (lg', Inr (m', out))"
      using k0 None run by simp
    moreover have "filter (\<lambda>r. getResourceName (Name r) d = Some k) out =
                filter (\<lambda>r. getResourceName (Name r) d = Some k) ns @
                (if k \<in> fst ` set m then filter (\<lambda>r. getResourceName (Name r) d = Some k) (x # xs)
                 else tl (filter (\<lambda>r. getResourceName (Name r) d = Some k) (x # xs)))" for k
      using grp [of k] k0 notin by auto
    ultimately show ?thesis by blast
  next
    case (Some v)
    then have isin: "k0 \<in> fst ` set m" by (force dest: map_of_SomeD)
    from Cons.IH [of m "ns @ [x]" "lg @ [EligibleNotSingleton (Name x) (CreationTimestamp x)]"]
    obtain lg' m' out where
      run: "nonSingletonsLoop d xs m (ns @ [x])
              (lg @ [EligibleNotSingleton (Name x) (CreationTimestamp x)]) = (lg', Inr (m', out))"
      and grp: "\<And>k. filter (\<lambda>r. getResourceName (Name r) d = Some k) out =
                filter (\<lambda>r. getResourceName (Name r) d = Some k) (ns @ [x]) @
                (if k \<in> fst ` set m then filter (\<lambda>r. getResourceName (Name r) d = Some k) xs
                 else tl (filter (\<lambda>r. getResourceName (Name r) d = Some k) xs))"
      by blast
    have "nonSingletonsLoop d (x # xs) m ns lg = (lg', Inr (m', out))"
      using k0 Some run by simp
    moreover have "filter (\<lambda>r. getResourceName (Name r) d = Some k) out =
                filter (\<lambda>r. getResourceName (Name r) d = Some k) ns @
                (if k \<in> fst ` set m then filter (\<lambda>r. getResourceName (Name r) d = Some k) (x # xs)
                 else tl (filter (\<lambda>r. getResourceName (Name r) d = Some k) (x # xs)))" for k
      using grp [of k] k0 isin by auto
    ultimately show ?thesis by blast
  qed
qed

lemma singletonsLoop_groups:
  assumes "d \<noteq> []"
  shows "\<exists>lg' m' out. singletonsLoop d xs m ns lg = (lg', Inr (m', out)) \<and>
           (\<forall>k. filter (\<lambda>r. getResourceName (Name r) d = Some k) out =
                filter (\<lambda>r. getResourceName (Name r) d = Some k) ns @
                (if k \<in> fst ` set m then filter (\<lambda>r. getResourceName (Name r) d = Some k) xs
                 else tl (filter (\<lambda>r. getResourceName (Name r) d = Some k) xs)))"
proof (induction xs arbitrary: m ns lg)
  case Nil
  show ?case by simp
next
  case (Cons x xs)
  from assms obtain k0 where k0: "getResourceName (Name x) d = Some k0"
    using getResourceName_total by blast
  show ?case
  proof (cases "map_of m k0")
    case None
    then have notin: "k0 \<notin> fst ` set m" by (simp add: map_of_eq_None_iff)
    from Cons.IH [of "AList.update k0 (Name x, True) m" ns
                     "lg @ [ExcludedNewestOfKind (Name x) (CreationTimestamp x)]"]
    obtain lg' m' out where
      run: "singletonsLoop d xs (AList.update k0 (Name x, True) m) ns
              (lg @ [ExcludedNewestOfKind (Name x) (CreationTimestamp x)]) = (lg', Inr (m', out))"
      and grp: "\<And>k. filter (\<lambda>r. getResourceName (Name r) d = Some k) out =
                filter (\<lambda>r. getResourceName (Name r) d = Some k) ns @
                (if k \<in> fst ` set (AList.update k0 (Name x, True) m)
                 then filter (\<lambda>r. getResourceName (Name r) d = Some k) xs
                 else tl (filter (\<lambda>r. getResourceName (Name r) d = Some k) xs))"
      by blast
    have "singletonsLoop d (x # xs) m ns lg = (lg', Inr (m', out))"
      using k0 None run by (simp add: GetResourceBasename_eq)
    moreover have "filter (\<lambda>r. getResourceName (Name r) d = Some k) out =
                filter (\<lambda>r. getResourceName (Name r) d = Some k) ns @
                (if k \<in> fst ` set m then filter (\<lambda>r. getResourceName (Name r) d = Some k) (x # xs)
                 else tl (filter (\<lambda>r. getResourceName (Name r) d = Some k) (x # xs)))" for k
      using grp [of k] k0 notin by (auto simp: dom_update)
    ultimately show ?thesis by blast
  next
    case (Some v)
    then have isin: "k0 \<in> fst ` set m" by (force dest: map_of_SomeD)
    from Cons.IH [of "AList.update k0 (Name x, False) m" "ns @ [x]"
                     "lg @ [EligibleNotSingleton (Name x) (CreationTimestamp x)]"]
    obtain lg' m' out where
      run: "singletonsLoop d xs (AList.update k0 (Name x, False) m) (ns @ [x])
              (lg @ [EligibleNotSingleton (Name x) (CreationTimestamp x)]) = (lg', Inr (m', out))"
      and grp: "\<And>k. filter (\<lambda>r. getResourceName (Name r) d = Some k) out =
                filter (\<lambda>r. getResourceName (Name r) d = Some k) (ns @ [x]) @
                (if k \<in> fst ` set (AList.update k0 (Name x, False) m)
                 then filter (\<lambda>r. getResourceName (Name r) d = Some k) xs
                 else tl (filter (\<lambda>r. getResourceName (Name r) d = Some k) xs))"
      by blast
    have "singletonsLoop d (x # xs) m ns lg = (lg', Inr (m', out))"
      using k0 Some run by (simp add: GetResourceBasename_eq)
    moreover have "filter (\<lambda>r. getResourceName (Name r) d = Some k) out =
                filter (\<lambda>r. getResourceName (Name r) d = Some k) ns @
                (if k \<in> fst ` set m then filter (\<lambda>r. getResourceName (Name r) d = Some k) (x # xs)
                 else tl (filter (\<lambda>r. getResourceName (Name r) d = Some k) (x # xs)))" for k
      using grp [of k] k0 isin by (auto simp: dom_update)
    ultimately show ?thesis by blast
  qed
qed

lemma getNonSingletonImages_groups:
  assumes "d \<noteq> []"
  shows "\<exists>ys. snd (getNonSingletonImages xs d lg) = Inr ys \<and>
           (\<forall>k. filter (\<lambda>r. getResourceName (Name r) d = Some k) ys =
                tl (filter (\<lambda>r. getResourceName (Name r) d = Some k) xs))"
proof -
  from nonSingletonsLoop_groups [OF assms, of xs "[]" "[]" lg]
  obtain lg' m' out where
    run: "nonSingletonsLoop d xs [] [] lg = (lg', Inr (m', out))"
    and grp: "\<And>k. filter (\<lambda>r. getResourceName (Name r) d = Some k) out =
                tl (filter (\<lambda>r. getResourceName (Name r) d = Some k) xs)"
    by auto
  from run have "snd (getNonSingletonImages xs d lg) = Inr out"
    by (simp add: getNonSingletonImages_def)
  with grp show ?thesis by blast
qed

lemma Singletons_groups:
  assumes "NameDelimiter i \<noteq> []"
  shows "\<exists>ys. snd (Singletons i lg) = Inr (i\<lparr>Items := ys\<rparr>) \<and>
           (\<forall>k. filter (\<lambda>r. getResourceName (Name r) (NameDelimiter i) = Some k) ys =
                tl (filter (\<lambda>r. getResourceName (Name r) (NameDelimiter i) = Some k) (Items i)))"
proof -
  from singletonsLoop_groups [OF assms, of "Items i" "[]" "[]" lg]
  obtain lg' m' out where
    run: "singletonsLoop (NameDelimiter i) (Items i) [] [] lg = (lg', Inr (m', out))"
    and grp: "\<And>k. filter (\<lambda>r. getResourceName (Name r) (NameDelimiter i) = Some k) out =
                tl (filter (\<lambda>r. getResourceName (Name r) (NameDelimiter i) = Some k) (Items i))"
    by auto
  from run have "snd (Singletons i lg) = Inr (i\<lparr>Items := out\<rparr>)"
    by (simp add: Singletons_def)
  with grp show ?thesis by blast
qed

lemma newest_first_head:
  assumes "sorted_wrt (\<lambda>a b. stamp b \<le> (stamp a :: int)) xs" and "r \<in> set (filter P xs)"
  shows "stamp r \<le> stamp (hd (filter P xs))"
proof -
  from assms(1) have s: "sorted_wrt (\<lambda>a b. stamp b \<le> stamp a) (filter P xs)"
    by (rule sorted_wrt_filter)
  from assms(2) obtain g gs where g: "filter P xs = g # gs"
    by (cases "filter P xs") auto
  with s have "\<forall>y\<in>set gs. stamp y \<le> stamp g" by simp
  with assms(2) g show ?thesis by auto
qed

lemma map_of_None_dom: "map_of m k = None \<longleftrightarrow> k \<notin> fst ` set m"
  by (simp add: map_of_eq_None_iff)

lemma singletonsLoop_agrees:
  assumes "fst ` set m = fst ` set m'"
  shows "map_sum id snd (snd (singletonsLoop d xs m ns lg)) =
         map_sum id snd (snd (nonSingletonsLoop d xs m' ns lg'))"
  using assms
proof (induction xs arbitrary: m m' ns lg lg')
  case Nil
  show ?case by simp
next
  case (Cons x xs)
  show ?case
  proof (cases "getResourceName (Name x) d")
    case None
    then show ?thesis by (simp add: GetResourceBasename_eq)
  next
    case (Some k)
    show ?thesis
    proof (cases "k \<in> fst ` set m")
      case True
      with Cons.prems obtain v v' where v: "map_of m k = Some v" "map_of m' k = Some v'"
        by (metis map_of_None_dom not_Some_eq)
      from Cons.prems have "fst ` set (AList.update k (Name x, False) m) = fst ` set m'"
        using True by (auto simp: dom_update)
      from Cons.IH [OF this] Some v show ?thesis
        by (simp add: GetResourceBasename_eq)
    next
      case False
      with Cons.prems have v: "map_of m k = None" "map_of m' k = None"
        by (simp_all add: map_of_None_dom)
      from Cons.prems
      have "fst ` set (AList.update k (Name x, True) m) = fst ` set (m' @ [(k, ''yes'')])"
        by (auto simp: dom_update)
      from Cons.IH [OF this] Some v show ?thesis
        by (simp add: GetResourceBasename_eq)
    qed
  qed
qed

lemma Singletons_items:
  "snd (getNonSingletonImages (Items i) (NameDelimiter i) lg') = Inr ys \<Longrightarrow>
   snd (Singletons i lg) = Inr (i\<lparr>Items := ys\<rparr>)"
proof -
  assume a: "snd (getNonSingletonImages (Items i) (NameDelimiter i) lg') = Inr ys"
  have eq: "map_sum id snd (snd (singletonsLoop (NameDelimiter i) (Items i) [] [] lg)) =
        map_sum id snd (snd (nonSingletonsLoop (NameDelimiter i) (Items i) [] [] lg'))"
    by (rule singletonsLoop_agrees) simp
  obtain l1 r1 where r1: "nonSingletonsLoop (NameDelimiter i) (Items i) [] [] lg' = (l1, r1)"
    by (cases "nonSingletonsLoop (NameDelimiter i) (Items i) [] [] lg'")
  obtain l2 r2 where r2: "singletonsLoop (NameDelimiter i) (Items i) [] [] lg = (l2, r2)"
    by (cases "singletonsLoop (NameDelimiter i) (Items i) [] [] lg")
  from a r1 obtain m1 where "r1 = Inr (m1, ys)"
    by (cases r1) (auto simp: getNonSingletonImages_def)
  with eq r1 r2 obtain m2 where "r2 = Inr (m2, ys)"
    by (cases r2) auto
  with r2 show ?thesis by (simp add: Singletons_def)
qed

text \<open>
  The stage of the older utils makes a resource a candidate exactly when the resource
  listed right after it has the same basename (split at \<^verbatim>\<open>"-"\<close>): of a run of
  neighbours with one basename the last is retained, and members of a scheme that are
  not neighbours are not grouped.
\<close>

lemma resourceNamesMatch_dash:
  "resourceNamesMatch a b d = Some (getResourceName a ''-'' = getResourceName b ''-'')"
proof -
  have "Split a ''-'' \<noteq> []" "Split b ''-'' \<noteq> []"
    by (simp_all add: Split_nonempty)
  then show ?thesis
    by (simp add: resourceNamesMatch_def getResourceName_def Let_def)
qed

lemma resourceNamesMatch_delimiter_example:
  "resourceNamesMatch ''web-1'' ''api-2'' ''_'' = Some False \<and>
   resourceNamesMatch ''web_1'' ''api_2'' ''_'' = Some True"
  by code_simp

lemma adjacentLoop_result:
  "snd (adjacentLoop d prev rest s ns lg) =
     Inr (ns @ map fst (filter (\<lambda>(a, b). getResourceName (Name a) ''-'' =
                                       getResourceName (Name b) ''-'')
                          (zip (prev # rest) rest)))"
proof (induction rest arbitrary: prev s ns lg)
  case Nil
  show ?case by simp
next
  case (Cons cur rest)
  show ?case
    by (cases "getResourceName (Name prev) ''-'' = getResourceName (Name cur) ''-''")
       (simp_all add: resourceNamesMatch_dash Cons.IH)
qed

lemma getNonSingletonImages_adjacent_result:
  "snd (getNonSingletonImages_adjacent imageList d lg) =
     Inr (map fst (filter (\<lambda>(a, b). getResourceName (Name a) ''-'' =
                                  getResourceName (Name b) ''-'')
                     (zip imageList (tl imageList))))"
  by (cases imageList) (simp_all add: getNonSingletonImages_adjacent_def adjacentLoop_result)

lemma getNonSingletonImages_adjacent_example:
  "snd (getNonSingletonImages_adjacent [web1, api1, web2] ''-'' []) = Inr [] \<and>
   snd (getNonSingletonImages_adjacent [web1, web2, api1] ''-'' []) = Inr [web1]"
  by code_simp


text \<open>
  Claim C2. The singleton stage compares no timestamp. Of a naming scheme it retains
  the resource that is listed first, which is the newest one only when the list comes
  newest first, as the listing of the images asks of the API. The instances are listed
  zone by zone: here the older \<^verbatim>\<open>web-1\<close> of the first zone comes before the newer
  \<^verbatim>\<open>web-2\<close> of the second, the stage logs \<^verbatim>\<open>web-1\<close> as the newest of its kind and the
  selection returns \<^verbatim>\<open>web-2\<close>, the newest of the two, for deletion; with the two in the
  other order the stage retains the other one. \<^verbatim>\<open>Singletons\<close> of the janitor packages
  does the same. The stage of the older utils retains the last-listed of two
  neighbours: of \<^verbatim>\<open>web-0\<close>, the newest, and \<^verbatim>\<open>web-1\<close>, listed by name, it logs \<^verbatim>\<open>web-1\<close>
  as the most recent of its type and returns \<^verbatim>\<open>web-0\<close>.
\<close>

theorem singleton_stage_selects_the_newest:
  "rfc3339_sample (CreationTimestamp vm1) = Some 1546300800 \<and>
   rfc3339_sample (CreationTimestamp vm2) = Some 1546387200 \<and>
   GetOldAndNonSingletonInstances literalRegexp rfc3339_sample (Inr [''zone-a'', ''zone-b''])
     instancesByZone 1546473600 False [''tmp''] ''-'' =
     Some ([ExcludedNewestOfKind ''web-1'' ''2019-01-01T00:00:00Z'',
            EligibleNotSingleton ''web-2'' ''2019-01-02T00:00:00Z'',
            SchemeIsSingleton ''web'',
            SelectedOlderThan ''web-2'' ''2019-01-02T00:00:00Z'' 1546473600], Inr [vm2]) \<and>
   snd (getNonSingletonInstances [vm1, vm2] ''-'' []) = Inr [vm2] \<and>
   snd (getNonSingletonInstances [vm2, vm1] ''-'' []) = Inr [vm1] \<and>
   snd (getNonSingletonImages [web1, web2] ''-'' []) = Inr [web2] \<and>
   snd (getNonSingletonImages [web2, web1] ''-'' []) = Inr [web1] \<and>
   Singletons \<lparr>Project = ''p'', Items = [vm1, vm2], ExpiredBefore = 1546473600,
               DeleteSingletons = False, BlacklistPatterns = [], NameDelimiter = ''-''\<rparr> [] =
     ([ExcludedNewestOfKind ''web-1'' ''2019-01-01T00:00:00Z'',
       EligibleNotSingleton ''web-2'' ''2019-01-02T00:00:00Z''],
      Inr \<lparr>Project = ''p'', Items = [vm2], ExpiredBefore = 1546473600,
           DeleteSingletons = False, BlacklistPatterns = [], NameDelimiter = ''-''\<rparr>) \<and>
   rfc3339_sample (CreationTimestamp web0) = Some 1546473600 \<and>
   rfc3339_sample (CreationTimestamp web1) = Some 1546300800 \<and>
   getNonSingletonImages_adjacent [web0, web1] ''-'' [] =
     ([ExcludedMostRecentOfType ''web-1'' ''2019-01-01T00:00:00Z''], Inr [web0])"
  by code_simp


section \<open>Names without the delimiter\<close>

lemma filter_tl_implied:
  assumes imp: "\<And>x. D x \<Longrightarrow> E x"
  shows "filter D (tl (filter E xs)) =
         (if (case filter E xs of [] \<Rightarrow> False | g # gs \<Rightarrow> D g) then tl (filter D xs)
          else filter D xs)"
proof -
  have fd: "filter D (filter E xs) = filter D xs"
    using imp by (induction xs) auto
  show ?thesis
  proof (cases "filter E xs")
    case Nil
    with fd show ?thesis by simp
  next
    case (Cons g gs)
    with fd have "filter D xs = filter D (g # gs)" by simp
    with Cons show ?thesis by simp
  qed
qed

lemma map_fst_zip_Cons: "map fst (zip (x # xs) xs) = butlast (x # xs)"
  by (induction xs arbitrary: x) simp_all

lemma map_fst_zip_tl: "map fst (zip xs (tl xs)) = butlast xs"
  by (cases xs) (simp_all only: map_fst_zip_Cons list.sel zip.simps list.map butlast.simps)

lemma adjacent_all_dash_free:
  assumes "\<forall>r \<in> set imageList. \<not> sublist ''-'' (Name r)"
  shows "snd (getNonSingletonImages_adjacent imageList ''-'' lg) = Inr (butlast imageList)"
proof -
  have "\<forall>p \<in> set (zip imageList (tl imageList)).
          (\<lambda>(a, b). getResourceName (Name a) ''-'' = getResourceName (Name b) ''-'') p"
  proof
    fix p assume p: "p \<in> set (zip imageList (tl imageList))"
    obtain a b where ab: "p = (a, b)" by (cases p)
    with p have "a \<in> set imageList" "b \<in> set (tl imageList)"
      by (auto dest: set_zip_leftD set_zip_rightD)
    then have "a \<in> set imageList" "b \<in> set imageList"
      by (auto dest: list.set_sel(2) [rotated])
    with assms have "getResourceName (Name a) ''-'' = Some []" "getResourceName (Name b) ''-'' = Some []"
      by (simp_all add: getResourceName_no_delimiter)
    with ab show "(\<lambda>(a, b). getResourceName (Name a) ''-'' = getResourceName (Name b) ''-'') p"
      by simp
  qed
  then have "filter (\<lambda>(a, b). getResourceName (Name a) ''-'' = getResourceName (Name b) ''-'')
               (zip imageList (tl imageList)) = zip imageList (tl imageList)"
    by (simp only: filter_True)
  then show ?thesis
    by (simp add: getNonSingletonImages_adjacent_result map_fst_zip_tl)
qed


text \<open>
  Claim C10, as amended. A name that does not contain the delimiter has the empty string
  as its naming scheme, by \<^verbatim>\<open>getResourceName\<close> and by \<^verbatim>\<open>GetResourceBasename\<close>, so all
  these names are one group (with an empty delimiter there is no such name). The stage
  that keeps a map retains the first-listed resource of that group only: every
  delimiter-free resource is a candidate but the one that is the first-listed of the
  group. The stage of the older utils, for the delimiter \<^verbatim>\<open>"-"\<close> at which its comparison
  splits, matches any two delimiter-free names and makes a resource a candidate when
  the resource listed next is of its group: of a list of delimiter-free resources all
  but the last-listed are candidates.
\<close>

theorem delimiter_free_names_share_the_empty_scheme:
  "(\<forall>a. \<not> sublist nameDelimiter a \<longrightarrow>
        getResourceName a nameDelimiter = Some [] \<and>
        GetResourceBasename a nameDelimiter = Some []) \<and>
   (nameDelimiter = [] \<longrightarrow> (\<forall>a. sublist nameDelimiter a)) \<and>
   (nameDelimiter \<noteq> [] \<longrightarrow>
      (\<exists>candidates.
         snd (getNonSingletonImages imageList nameDelimiter lg) = Inr candidates \<and>
         snd (getNonSingletonInstances imageList nameDelimiter lg) = Inr candidates \<and>
         snd (Singletons (i\<lparr>Items := imageList, NameDelimiter := nameDelimiter\<rparr>) lg) =
           Inr (i\<lparr>Items := candidates, NameDelimiter := nameDelimiter\<rparr>) \<and>
         filter (\<lambda>r. getResourceName (Name r) nameDelimiter = Some []) candidates =
           tl (filter (\<lambda>r. getResourceName (Name r) nameDelimiter = Some []) imageList) \<and>
         filter (\<lambda>r. \<not> sublist nameDelimiter (Name r)) candidates =
           (if (case filter (\<lambda>r. getResourceName (Name r) nameDelimiter = Some []) imageList of
                  [] \<Rightarrow> False
                | g # gs \<Rightarrow> \<not> sublist nameDelimiter (Name g))
            then tl (filter (\<lambda>r. \<not> sublist nameDelimiter (Name r)) imageList)
            else filter (\<lambda>r. \<not> sublist nameDelimiter (Name r)) imageList))) \<and>
   (\<forall>a b. \<not> sublist ''-'' a \<and> \<not> sublist ''-'' b \<longrightarrow>
        resourceNamesMatch a b ''-'' = Some True) \<and>
   snd (getNonSingletonImages_adjacent imageList ''-'' lg) =
     Inr (map fst (filter (\<lambda>(a, b). getResourceName (Name a) ''-'' =
                                     getResourceName (Name b) ''-'')
                     (zip imageList (tl imageList)))) \<and>
   ((\<forall>r \<in> set imageList. \<not> sublist ''-'' (Name r)) \<longrightarrow>
      snd (getNonSingletonImages_adjacent imageList ''-'' lg) = Inr (butlast imageList))"
proof -
  let ?E = "\<lambda>r. getResourceName (Name r) nameDelimiter = Some []"
  let ?D = "\<lambda>r. \<not> sublist nameDelimiter (Name r)"
  have key: "getResourceName a nameDelimiter = Some [] \<and>
             GetResourceBasename a nameDelimiter = Some []"
    if "\<not> sublist nameDelimiter a" for a
    using that by (simp add: getResourceName_no_delimiter GetResourceBasename_eq)
  have none: "\<forall>a. sublist nameDelimiter a" if "nameDelimiter = []"
    using that by simp
  have old: "resourceNamesMatch a b ''-'' = Some True"
    if "\<not> sublist ''-'' a \<and> \<not> sublist ''-'' b" for a b
    using that by (simp add: resourceNamesMatch_dash getResourceName_no_delimiter)
  have stage: "\<exists>candidates.
         snd (getNonSingletonImages imageList nameDelimiter lg) = Inr candidates \<and>
         snd (getNonSingletonInstances imageList nameDelimiter lg) = Inr candidates \<and>
         snd (Singletons (i\<lparr>Items := imageList, NameDelimiter := nameDelimiter\<rparr>) lg) =
           Inr (i\<lparr>Items := candidates, NameDelimiter := nameDelimiter\<rparr>) \<and>
         filter ?E candidates = tl (filter ?E imageList) \<and>
         filter ?D candidates =
           (if (case filter ?E imageList of [] \<Rightarrow> False | g # gs \<Rightarrow> ?D g)
            then tl (filter ?D imageList) else filter ?D imageList)"
    if d: "nameDelimiter \<noteq> []"
  proof -
    from getNonSingletonImages_groups [OF d, of imageList lg]
    obtain ys where ys: "snd (getNonSingletonImages imageList nameDelimiter lg) = Inr ys"
      and grp: "\<And>k. filter (\<lambda>r. getResourceName (Name r) nameDelimiter = Some k) ys =
                   tl (filter (\<lambda>r. getResourceName (Name r) nameDelimiter = Some k) imageList)"
      by blast
    let ?i = "i\<lparr>Items := imageList, NameDelimiter := nameDelimiter\<rparr>"
    from ys have "snd (getNonSingletonImages (Items ?i) (NameDelimiter ?i) lg) = Inr ys"
      by simp
    from Singletons_items [OF this, of lg]
    have zs: "snd (Singletons ?i lg) = Inr (i\<lparr>Items := ys, NameDelimiter := nameDelimiter\<rparr>)"
      by simp
    from ys have ins: "snd (getNonSingletonInstances imageList nameDelimiter lg) = Inr ys"
      by (simp add: getNonSingletonInstances_def)
    have DE: "?E r" if "?D r" for r
      using that by (simp add: getResourceName_no_delimiter)
    have "filter ?D (filter ?E ys) = filter ?D ys"
      using DE by (induction ys) auto
    then have "filter ?D ys = filter ?D (tl (filter ?E imageList))"
      by (simp add: grp)
    also have "\<dots> = (if (case filter ?E imageList of [] \<Rightarrow> False | g # gs \<Rightarrow> ?D g)
                      then tl (filter ?D imageList) else filter ?D imageList)"
      using DE by (rule filter_tl_implied)
    finally have df: "filter ?D ys =
        (if (case filter ?E imageList of [] \<Rightarrow> False | g # gs \<Rightarrow> ?D g)
         then tl (filter ?D imageList) else filter ?D imageList)" .
    from ys ins zs grp [of "[]"] df show ?thesis by blast
  qed
  have adj: "snd (getNonSingletonImages_adjacent imageList ''-'' lg) =
     Inr (map fst (filter (\<lambda>(a, b). getResourceName (Name a) ''-'' =
                                     getResourceName (Name b) ''-'')
                     (zip imageList (tl imageList))))"
    by (rule getNonSingletonImages_adjacent_result)
  have last: "snd (getNonSingletonImages_adjacent imageList ''-'' lg) = Inr (butlast imageList)"
    if "\<forall>r \<in> set imageList. \<not> sublist ''-'' (Name r)"
    using that by (rule adjacent_all_dash_free)
  show ?thesis
    apply (intro conjI)
    using key apply blast
    using none apply blast
    using stage apply blast
    using old apply blast
    using adj apply blast
    using last apply blast
    done
qed

theorem delimiter_free_names_share_the_empty_scheme_witness:
  "''-'' \<noteq> [] \<and> \<not> sublist ''-'' ''web'' \<and> \<not> sublist ''-'' ''api'' \<and>
   getResourceName ''web'' ''-'' = Some [] \<and> getResourceName ''api'' ''-'' = Some [] \<and>
   snd (getNonSingletonImages [web, api] ''-'' []) = Inr [api] \<and>
   filter (\<lambda>r. \<not> sublist ''-'' (Name r)) [api] =
     tl (filter (\<lambda>r. \<not> sublist ''-'' (Name r)) [web, api]) \<and>
   resourceNamesMatch ''web'' ''api'' ''-'' = Some True \<and>
   snd (getNonSingletonImages_adjacent [web, api] ''-'' []) = Inr (butlast [web, api])"
proof -
  have d: "''-'' \<noteq> []" by simp
  have w: "\<not> sublist ''-'' ''web''" "\<not> sublist ''-'' ''api''" by code_simp+
  have ev: "snd (getNonSingletonImages [web, api] ''-'' []) = Inr [api]"
    by code_simp
  have hd: "(case filter (\<lambda>r. getResourceName (Name r) ''-'' = Some []) [web, api] of
               [] \<Rightarrow> False | g # gs \<Rightarrow> \<not> sublist ''-'' (Name g))"
    by code_simp
  have all: "\<forall>r \<in> set [web, api]. \<not> sublist ''-'' (Name r)"
    using w by (simp add: web_def api_def)
  note inst = delimiter_free_names_share_the_empty_scheme
    [where nameDelimiter = "''-''" and imageList = "[web, api]" and lg = "[]"]
  from inst [THEN conjunct1] w have k: "getResourceName ''web'' ''-'' = Some []"
    "getResourceName ''api'' ''-'' = Some []"
    by blast+
  from inst [THEN conjunct2, THEN conjunct2, THEN conjunct1] d ev hd
  have f: "filter (\<lambda>r. \<not> sublist ''-'' (Name r)) [api] =
     tl (filter (\<lambda>r. \<not> sublist ''-'' (Name r)) [web, api])"
    by auto
  from inst [THEN conjunct2, THEN conjunct2, THEN conjunct2, THEN conjunct1] w
  have m: "resourceNamesMatch ''web'' ''api'' ''-'' = Some True"
    by blast
  from inst [THEN conjunct2, THEN conjunct2, THEN conjunct2, THEN conjunct2, THEN conjunct2] all
  have a: "snd (getNonSingletonImages_adjacent [web, api] ''-'' []) = Inr (butlast [web, api])"
    by blast
  from d w k ev f m a show ?thesis by blast
qed

text \<open>
  On the claim as first stated: of the two delimiter-free resources \<^verbatim>\<open>web\<close> and \<^verbatim>\<open>api\<close>,
  listed in this order, the stage of the older utils makes the first-listed one the
  candidate and retains the last-listed one; the stage that keeps a map does the
  opposite.
\<close>

theorem delimiter_free_names_counterexample:
  "\<not> sublist ''-'' (Name web) \<and> \<not> sublist ''-'' (Name api) \<and>
   resourceNamesMatch (Name web) (Name api) ''-'' = Some True \<and>
   getNonSingletonImages_adjacent [web, api] ''-'' [] =
     ([ExcludedMostRecentOfType ''api'' ''2019-01-02T00:00:00Z''], Inr [web]) \<and>
   snd (getNonSingletonImages [web, api] ''-'' []) = Inr [api]"
  by code_simp


section \<open>The blacklist stage\<close>

text \<open>
  What the loop over items and patterns computes when every pattern compiles: every
  item is appended once for each pattern that does not match its name.
\<close>

lemma blacklistPatterns_result:
  assumes "\<forall>p \<in> set ps. rx p \<noteq> None"
  shows "snd (blacklistPatterns rx img ps acc lg) =
           Inr (acc @ replicate (length (filter (\<lambda>p. \<not> the (rx p) (Name img)) ps)) img)"
  using assms
proof (induction ps arbitrary: acc lg)
  case Nil
  show ?case by simp
next
  case (Cons p ps)
  then obtain re where "rx p = Some re" by auto
  with Cons show ?case by (simp add: replicate_app_Cons_same)
qed

lemma blacklistItems_result:
  assumes "\<forall>p \<in> set blacklist. rx p \<noteq> None"
  shows "snd (blacklistItems rx blacklist items acc lg) =
           Inr (acc @ concat (map (\<lambda>img. replicate
                  (length (filter (\<lambda>p. \<not> the (rx p) (Name img)) blacklist)) img) items))"
proof (induction items arbitrary: acc lg)
  case Nil
  show ?case by simp
next
  case (Cons img items)
  obtain lg' r where run: "blacklistPatterns rx img blacklist acc lg = (lg', r)"
    by (cases "blacklistPatterns rx img blacklist acc lg")
  with blacklistPatterns_result [OF assms, of img acc lg]
  have "r = Inr (acc @ replicate
                  (length (filter (\<lambda>p. \<not> the (rx p) (Name img)) blacklist)) img)"
    by simp
  with run Cons.IH show ?case by simp
qed

text \<open>
  Claim C1 says that the blacklist stage is a filter: the output holds, once each and in
  order, the resources whose name matches no pattern, and it is the input when there is
  no pattern. The loop does not do that. With the patterns \<^verbatim>\<open>tmp\<close> and \<^verbatim>\<open>keep\<close> the
  resource \<^verbatim>\<open>tmp-1\<close>, which matches the first, is appended for the second and stays
  eligible to the end of the selection; \<^verbatim>\<open>web-1\<close>, which matches neither, is appended
  twice; and without patterns the loop of the utils appends nothing, so that no resource
  is left (the \<^verbatim>\<open>Blacklist\<close> method returns early in that case).
\<close>

theorem blacklist_appends_once_per_unmatched_pattern:
  "snd (blacklistItems literalRegexp [''tmp'', ''keep''] [tmp1] [] []) = Inr [tmp1] \<and>
   snd (blacklistItems literalRegexp [''tmp'', ''keep''] [web1] [] []) = Inr [web1, web1] \<and>
   snd (blacklistItems literalRegexp [] [web1] [] []) = Inr [] \<and>
   snd (Blacklist literalRegexp
          \<lparr>Project = ''p'', Items = [tmp1], ExpiredBefore = 0, DeleteSingletons = False,
           BlacklistPatterns = [''tmp'', ''keep''], NameDelimiter = ''-''\<rparr> []) =
     Inr \<lparr>Project = ''p'', Items = [tmp1], ExpiredBefore = 0, DeleteSingletons = False,
          BlacklistPatterns = [''tmp'', ''keep''], NameDelimiter = ''-''\<rparr> \<and>
   map_option snd
     (GetOldAndNonSingletonImages literalRegexp rfc3339_sample
        (\<lambda>token. Inr \<lparr>pageItems = [tmp1], NextPageToken = []\<rparr>)
        1546387200 True [''tmp'', ''keep''] ''-'') = Some (Inr [tmp1])"
  by code_simp

section \<open>The age stage\<close>

lemma oldImagesLoop_result:
  assumes "\<forall>r \<in> set xs. parse (CreationTimestamp r) \<noteq> None"
  shows "snd (oldImagesLoop parse t xs acc lg) =
           Inr (acc @ filter (\<lambda>r. \<exists>stamp. parse (CreationTimestamp r) = Some stamp \<and> stamp < t) xs)"
  using assms
proof (induction xs arbitrary: acc lg)
  case Nil
  show ?case by simp
next
  case (Cons x xs)
  then obtain stamp where "parse (CreationTimestamp x) = Some stamp" by auto
  with Cons show ?case by simp
qed

lemma oldImagesLoop_error:
  assumes "\<exists>r \<in> set xs. parse (CreationTimestamp r) = None"
  shows "snd (oldImagesLoop parse t xs acc lg) =
           Inl (Errorf ''utils.go: Failed to parse timestamp''
                  (ParseError (CreationTimestamp
                     (hd (filter (\<lambda>r. parse (CreationTimestamp r) = None) xs)))))"
  using assms
proof (induction xs arbitrary: acc lg)
  case Nil
  then show ?case by simp
next
  case (Cons x xs)
  show ?case
  proof (cases "parse (CreationTimestamp x)")
    case None
    then show ?thesis by simp
  next
    case (Some stamp)
    with Cons.prems have "\<exists>r \<in> set xs. parse (CreationTimestamp r) = None" by auto
    from Cons.IH [OF this] Some show ?thesis by simp
  qed
qed

lemma expiredLoopImages_result:
  assumes "\<forall>r \<in> set xs. parse (CreationTimestamp r) \<noteq> None"
  shows "snd (expiredLoopImages parse e xs acc lg) = Inr (acc @ xs)"
  using assms
proof (induction xs arbitrary: acc lg)
  case Nil
  show ?case by simp
next
  case (Cons x xs)
  then obtain stamp where "parse (CreationTimestamp x) = Some stamp" by auto
  with Cons show ?case by simp
qed

lemma expiredLoopImages_fatal:
  assumes "\<exists>r \<in> set xs. parse (CreationTimestamp r) = None"
  shows "snd (expiredLoopImages parse e xs acc lg) = Inl (Fatal ''Failed to parse timestamp'')"
  using assms
proof (induction xs arbitrary: acc lg)
  case Nil
  then show ?case by simp
next
  case (Cons x xs)
  show ?case
  proof (cases "parse (CreationTimestamp x)")
    case None
    then show ?thesis by simp
  next
    case (Some stamp)
    with Cons.prems have "\<exists>r \<in> set xs. parse (CreationTimestamp r) = None" by auto
    from Cons.IH [OF this] Some show ?thesis by simp
  qed
qed

lemma expiredLoopInstances_result:
  assumes "\<forall>r \<in> set xs. parse (CreationTimestamp r) \<noteq> None"
  shows "snd (expiredLoopInstances parse e xs acc lg) =
           Inr (acc @ filter (\<lambda>r. \<not> the (parse (CreationTimestamp r)) < e) xs)"
  using assms
proof (induction xs arbitrary: acc lg)
  case Nil
  show ?case by simp
next
  case (Cons x xs)
  then obtain stamp where "parse (CreationTimestamp x) = Some stamp" by auto
  with Cons show ?case by simp
qed

lemma expiredLoopInstances_fatal:
  assumes "\<exists>r \<in> set xs. parse (CreationTimestamp r) = None"
  shows "snd (expiredLoopInstances parse e xs acc lg) = Inl (Fatal ''Failed to parse timestamp'')"
  using assms
proof (induction xs arbitrary: acc lg)
  case Nil
  then show ?case by simp
next
  case (Cons x xs)
  show ?case
  proof (cases "parse (CreationTimestamp x)")
    case None
    then show ?thesis by simp
  next
    case (Some stamp)
    with Cons.prems have "\<exists>r \<in> set xs. parse (CreationTimestamp r) = None" by auto
    from Cons.IH [OF this] Some show ?thesis by simp
  qed
qed

lemma Expired_images_keeps_items:
  "snd (Expired_images parse i lg) = Inr i' \<Longrightarrow> i' = i"
  by (auto simp: Expired_images_def split: prod.splits sum.splits)

lemma Expired_instances_keeps_items:
  "snd (Expired_instances parse i lg) = Inr i' \<Longrightarrow> i' = i"
  by (auto simp: Expired_instances_def split: prod.splits sum.splits)

lemma getOldImages_strict:
  assumes "\<forall>r \<in> set xs. parse (CreationTimestamp r) \<noteq> None"
  shows "snd (getOldImages parse xs t lg) =
           Inr (filter (\<lambda>r. \<exists>stamp. parse (CreationTimestamp r) = Some stamp \<and> stamp < t) xs)"
  using oldImagesLoop_result [OF assms, of t "[]" lg] by (simp add: getOldImages_def)

lemma getOldInstances_eq: "getOldInstances parse xs t lg = getOldImages parse xs t lg"
  by (simp add: getOldInstances_def getOldImages_def)

lemma Expired_images_fatal:
  assumes "\<exists>r \<in> set (Items i). parse (CreationTimestamp r) = None"
  shows "snd (Expired_images parse i lg) = Inl (Fatal ''Failed to parse timestamp'')"
proof -
  obtain lg' r where run: "expiredLoopImages parse (ExpiredBefore i) (Items i) [] lg = (lg', r)"
    by (cases "expiredLoopImages parse (ExpiredBefore i) (Items i) [] lg")
  with expiredLoopImages_fatal [OF assms, of "ExpiredBefore i" "[]" lg]
  have "r = Inl (Fatal ''Failed to parse timestamp'')" by simp
  with run show ?thesis by (simp add: Expired_images_def)
qed

lemma Expired_instances_fatal:
  assumes "\<exists>r \<in> set (Items i). parse (CreationTimestamp r) = None"
  shows "snd (Expired_instances parse i lg) = Inl (Fatal ''Failed to parse timestamp'')"
proof -
  obtain lg' r where run:
    "expiredLoopInstances parse (ExpiredBefore i) (Items i) [] lg = (lg', r)"
    by (cases "expiredLoopInstances parse (ExpiredBefore i) (Items i) [] lg")
  with expiredLoopInstances_fatal [OF assms, of "ExpiredBefore i" "[]" lg]
  have "r = Inl (Fatal ''Failed to parse timestamp'')" by simp
  with run show ?thesis by (simp add: Expired_instances_def)
qed

lemma deleteImages_selection_error:
  assumes "GetOldAndNonSingletonImages rx parse imagesList t deleteSingletons blacklist d =
             Some (lg, Inl err)"
  shows "snd (deleteImages rx parse imagesList del get sched chanLimit project t d workers notDryRun
                deleteSingletons blacklist) = ProcessExit"
  using assms by (simp add: deleteImages_def)

lemma GetOldAndNonSingletonImages_age_error:
  assumes "listPages rx ''utils.go: Error getting images'' imagesList blacklist [] [] [] =
             Some (lg1, Inr allImages) \<and>
           (if \<not> deleteSingletons then getNonSingletonImages allImages d lg1
            else (lg1, Inr allImages)) = (lg2, Inr candidates) \<and>
           (\<exists>r \<in> set candidates. parse (CreationTimestamp r) = None)"
  shows "\<exists>lg3 e. GetOldAndNonSingletonImages rx parse imagesList t deleteSingletons blacklist d =
                  Some (lg3, Inl (Errorf ''utils.go: Unable to get old images'' e))"
proof -
  obtain lg3 r where run: "getOldImages parse candidates t lg2 = (lg3, r)"
    by (cases "getOldImages parse candidates t lg2")
  from assms have "\<exists>r \<in> set candidates. parse (CreationTimestamp r) = None"
    by blast
  from oldImagesLoop_error [OF this, of t "[]" lg2] run
  obtain e where "r = Inl e"
    by (simp add: getOldImages_def)
  with run assms show ?thesis
    by (simp add: GetOldAndNonSingletonImages_def)
qed

text \<open>
  Claim C8, as amended. A timestamp that does not parse is not skipped. In the utils
  the age stage returns an error and no list, for images and for instances, and an
  error of the selection makes \<^verbatim>\<open>deleteImages\<close> end the process; in the janitor packages
  \<^verbatim>\<open>Expired\<close> ends the process itself. The utils' age stage returns a list only when
  every timestamp parses, and then it is the list of the resources whose stamp is before
  the threshold.
\<close>

theorem age_stage_fails_on_unparsable_timestamp:
  "((\<exists>r \<in> set xs. parse (CreationTimestamp r) = None) \<longrightarrow>
      (\<exists>e. snd (getOldImages parse xs t lg) = Inl e \<and>
            snd (getOldInstances parse xs t lg) = Inl e) \<and>
      snd (Expired_images parse (i\<lparr>Items := xs\<rparr>) lg) =
        Inl (Fatal ''Failed to parse timestamp'') \<and>
      snd (Expired_instances parse (i\<lparr>Items := xs\<rparr>) lg) =
        Inl (Fatal ''Failed to parse timestamp'')) \<and>
   ((\<forall>r \<in> set xs. parse (CreationTimestamp r) \<noteq> None) \<longrightarrow>
      snd (getOldImages parse xs t lg) =
        Inr (filter (\<lambda>r. \<exists>stamp. parse (CreationTimestamp r) = Some stamp \<and> stamp < t) xs) \<and>
      snd (getOldInstances parse xs t lg) =
        Inr (filter (\<lambda>r. \<exists>stamp. parse (CreationTimestamp r) = Some stamp \<and> stamp < t) xs)) \<and>
   (listPages rx ''utils.go: Error getting images'' imagesList blacklist [] [] [] =
      Some (lg1, Inr allImages) \<and>
    (if \<not> deleteSingletons then getNonSingletonImages allImages d lg1
     else (lg1, Inr allImages)) = (lg2, Inr candidates) \<and>
    (\<exists>r \<in> set candidates. parse (CreationTimestamp r) = None) \<longrightarrow>
    (\<exists>lg3 e. GetOldAndNonSingletonImages rx parse imagesList t deleteSingletons blacklist d =
               Some (lg3, Inl (Errorf ''utils.go: Unable to get old images'' e)))) \<and>
   (GetOldAndNonSingletonImages rx parse imagesList t deleteSingletons blacklist d =
      Some (lg0, Inl err) \<longrightarrow>
    snd (deleteImages rx parse imagesList del get sched chanLimit project t d workers notDryRun
           deleteSingletons blacklist) = ProcessExit) \<and>
   (GetOldAndNonSingletonInstances rx parse zonesList instancesList t deleteSingletons
      blacklist d = Some (lg0, Inl err) \<longrightarrow>
    snd (deleteInstances rx parse zonesList instancesList del get sched chanLimit project t d workers
           notDryRun deleteSingletons blacklist) = ProcessExit)"
proof -
  have f: "\<exists>lg3 e. GetOldAndNonSingletonImages rx parse imagesList t deleteSingletons blacklist d =
               Some (lg3, Inl (Errorf ''utils.go: Unable to get old images'' e))"
    if "listPages rx ''utils.go: Error getting images'' imagesList blacklist [] [] [] =
          Some (lg1, Inr allImages) \<and>
        (if \<not> deleteSingletons then getNonSingletonImages allImages d lg1
         else (lg1, Inr allImages)) = (lg2, Inr candidates) \<and>
        (\<exists>r \<in> set candidates. parse (CreationTimestamp r) = None)"
    using that by (rule GetOldAndNonSingletonImages_age_error)
  have g: "snd (deleteInstances rx parse zonesList instancesList del get sched chanLimit project t d
                  workers notDryRun deleteSingletons blacklist) = ProcessExit"
    if "GetOldAndNonSingletonInstances rx parse zonesList instancesList t deleteSingletons
          blacklist d = Some (lg0, Inl err)"
    using that by (simp add: deleteInstances_def)
  have a: "(\<exists>e. snd (getOldImages parse xs t lg) = Inl e \<and>
            snd (getOldInstances parse xs t lg) = Inl e)"
    if "\<exists>r \<in> set xs. parse (CreationTimestamp r) = None"
    using oldImagesLoop_error [OF that, of t "[]" lg]
    by (simp add: getOldImages_def getOldInstances_def)
  have b: "snd (Expired_images parse (i\<lparr>Items := xs\<rparr>) lg) =
        Inl (Fatal ''Failed to parse timestamp'')"
    if "\<exists>r \<in> set xs. parse (CreationTimestamp r) = None"
    using that by (intro Expired_images_fatal) simp
  have c: "snd (Expired_instances parse (i\<lparr>Items := xs\<rparr>) lg) =
        Inl (Fatal ''Failed to parse timestamp'')"
    if "\<exists>r \<in> set xs. parse (CreationTimestamp r) = None"
    using that by (intro Expired_instances_fatal) simp
  have d: "snd (getOldImages parse xs t lg) =
        Inr (filter (\<lambda>r. \<exists>stamp. parse (CreationTimestamp r) = Some stamp \<and> stamp < t) xs) \<and>
      snd (getOldInstances parse xs t lg) =
        Inr (filter (\<lambda>r. \<exists>stamp. parse (CreationTimestamp r) = Some stamp \<and> stamp < t) xs)"
    if "\<forall>r \<in> set xs. parse (CreationTimestamp r) \<noteq> None"
    using getOldImages_strict [OF that] by (simp add: getOldInstances_eq)
  have e: "snd (deleteImages rx parse imagesList del get sched chanLimit project t d workers notDryRun
           deleteSingletons blacklist) = ProcessExit"
    if "GetOldAndNonSingletonImages rx parse imagesList t deleteSingletons blacklist d =
      Some (lg0, Inl err)"
    using that by (rule deleteImages_selection_error)
  from a b c d e f g show ?thesis by blast
qed

theorem age_stage_fails_on_unparsable_timestamp_witness:
  "(\<exists>r \<in> set [web1, unstamped]. rfc3339_sample (CreationTimestamp r) = None) \<and>
   (\<exists>e. snd (getOldImages rfc3339_sample [web1, unstamped] 1546387200 []) = Inl e) \<and>
   rfc3339_sample (CreationTimestamp web1) \<noteq> None \<and>
   rfc3339_sample (CreationTimestamp api1) \<noteq> None \<and>
   snd (getOldImages rfc3339_sample [web1, api1] 1546387200 []) = Inr [web1]"
proof -
  have h1: "\<exists>r \<in> set [web1, unstamped]. rfc3339_sample (CreationTimestamp r) = None"
    by (simp add: unstamped_def rfc3339_sample_def)
  have h2: "\<forall>r \<in> set [web1, api1]. rfc3339_sample (CreationTimestamp r) \<noteq> None"
    by (simp add: web1_def api1_def rfc3339_sample_def)
  have f: "filter (\<lambda>r. \<exists>stamp. rfc3339_sample (CreationTimestamp r) = Some stamp \<and>
                       stamp < 1546387200) [web1, api1] = [web1]"
    by (simp add: web1_def api1_def rfc3339_sample_def)
  from age_stage_fails_on_unparsable_timestamp
         [where xs = "[web1, unstamped]" and parse = rfc3339_sample and t = 1546387200
            and lg = "[]", THEN conjunct1] h1
  have a: "\<exists>e. snd (getOldImages rfc3339_sample [web1, unstamped] 1546387200 []) = Inl e"
    by blast
  from age_stage_fails_on_unparsable_timestamp
         [where xs = "[web1, api1]" and parse = rfc3339_sample and t = 1546387200
            and lg = "[]", THEN conjunct2, THEN conjunct1] h2 f
  have b: "snd (getOldImages rfc3339_sample [web1, api1] 1546387200 []) = Inr [web1]"
    by simp
  from h2 have "rfc3339_sample (CreationTimestamp web1) \<noteq> None"
    "rfc3339_sample (CreationTimestamp api1) \<noteq> None"
    by simp_all
  with h1 a b show ?thesis by blast
qed

text \<open>
  On the claim as first stated: with \<^verbatim>\<open>web-1\<close>, older than the threshold, and one
  resource whose timestamp does not parse, the age stage returns an error instead of
  the list with \<^verbatim>\<open>web-1\<close>, the selection returns that error, and \<^verbatim>\<open>deleteImages\<close> ends
  the process.
\<close>

theorem unparsable_timestamp_counterexample:
  "snd (getOldImages rfc3339_sample [web1, unstamped] 1546387200 []) =
     Inl (Errorf ''utils.go: Failed to parse timestamp'' (ParseError ''yesterday'')) \<and>
   rfc3339_sample (CreationTimestamp web1) = Some 1546300800 \<and>
   map_option snd
     (GetOldAndNonSingletonImages literalRegexp rfc3339_sample
        (\<lambda>token. Inr \<lparr>pageItems = [web1, unstamped], NextPageToken = []\<rparr>)
        1546387200 True [''keep''] ''-'') =
     Some (Inl (Errorf ''utils.go: Unable to get old images''
                  (Errorf ''utils.go: Failed to parse timestamp'' (ParseError ''yesterday'')))) \<and>
   snd (deleteImages literalRegexp rfc3339_sample
          (\<lambda>token. Inr \<lparr>pageItems = [web1, unstamped], NextPageToken = []\<rparr>)
          (\<lambda>c. Inl (ApiError ''unused'')) (\<lambda>q k. Inl (ApiError ''unused'')) (\<lambda>jobs w. jobs) 1024
          ''p'' 1546387200 ''-'' 1 True True [''keep'']) = ProcessExit"
  by code_simp


section \<open>The age stage of the janitor packages\<close>

text \<open>
  \<^verbatim>\<open>Expired\<close> changes nothing: when every timestamp parses, the metadata it leaves is
  the metadata it was given.
\<close>

lemma Expired_images_is_identity:
  assumes "\<forall>r \<in> set (Items i). parse (CreationTimestamp r) \<noteq> None"
  shows "snd (Expired_images parse i lg) = Inr i"
proof -
  obtain lg' r where run: "expiredLoopImages parse (ExpiredBefore i) (Items i) [] lg = (lg', r)"
    by (cases "expiredLoopImages parse (ExpiredBefore i) (Items i) [] lg")
  with expiredLoopImages_result [OF assms, of "ExpiredBefore i" "[]" lg]
  have "r = Inr (Items i)" by simp
  with run show ?thesis by (simp add: Expired_images_def)
qed

lemma Expired_instances_is_identity:
  assumes "\<forall>r \<in> set (Items i). parse (CreationTimestamp r) \<noteq> None"
  shows "snd (Expired_instances parse i lg) = Inr i"
proof -
  obtain lg' r where run:
    "expiredLoopInstances parse (ExpiredBefore i) (Items i) [] lg = (lg', r)"
    by (cases "expiredLoopInstances parse (ExpiredBefore i) (Items i) [] lg")
  with expiredLoopInstances_result [OF assms, of "ExpiredBefore i" "[]" lg]
  obtain inl where "r = Inr inl" by simp
  with run show ?thesis by (simp add: Expired_instances_def)
qed

text \<open>
  Claim C3 says that a candidate is in the final eligible set exactly when its parsed
  timestamp is strictly before the threshold. The age stage of the utils does that
  (\<open>getOldImages_strict\<close> above), and on the two resources below it selects none.
  \<^verbatim>\<open>Expired\<close> of the janitor packages keeps both: \<^verbatim>\<open>web-2\<close>, whose stamp is the
  threshold, and \<^verbatim>\<open>api-1\<close>, which is newer. After the three stages of the janitor the
  newer \<^verbatim>\<open>web-2\<close> is still an item, to be handed to the deletion engine.
\<close>

theorem Expired_removes_no_item:
  "snd (Expired_images rfc3339_sample
          \<lparr>Project = ''p'', Items = [web2, api1], ExpiredBefore = 1546387200,
           DeleteSingletons = False, BlacklistPatterns = [], NameDelimiter = ''-''\<rparr> []) =
     Inr \<lparr>Project = ''p'', Items = [web2, api1], ExpiredBefore = 1546387200,
          DeleteSingletons = False, BlacklistPatterns = [], NameDelimiter = ''-''\<rparr> \<and>
   snd (Expired_instances rfc3339_sample
          \<lparr>Project = ''p'', Items = [web2, api1], ExpiredBefore = 1546387200,
           DeleteSingletons = False, BlacklistPatterns = [], NameDelimiter = ''-''\<rparr> []) =
     Inr \<lparr>Project = ''p'', Items = [web2, api1], ExpiredBefore = 1546387200,
          DeleteSingletons = False, BlacklistPatterns = [], NameDelimiter = ''-''\<rparr> \<and>
   rfc3339_sample (CreationTimestamp web2) = Some 1546387200 \<and>
   rfc3339_sample (CreationTimestamp api1) = Some 1546473600 \<and>
   snd (janitorStages literalRegexp (Expired_instances rfc3339_sample)
          \<lparr>Project = ''p'', Items = [web1, web2], ExpiredBefore = 1546300800,
           DeleteSingletons = False, BlacklistPatterns = [], NameDelimiter = ''-''\<rparr>) =
     Inr \<lparr>Project = ''p'', Items = [web2], ExpiredBefore = 1546300800,
          DeleteSingletons = False, BlacklistPatterns = [], NameDelimiter = ''-''\<rparr> \<and>
   snd (getOldImages rfc3339_sample [web2, api1] 1546387200 []) = Inr []"
  by code_simp

section \<open>Singletons and the flag that keeps them\<close>

text \<open>
  In the utils a scheme with one member has no candidate, and with
  \<^verbatim>\<open>deleteSingletons\<close> the selection goes from the listing to the age stage. In the
  janitor packages the result of \<^verbatim>\<open>Singletons\<close> does not depend on the field
  \<^verbatim>\<open>DeleteSingletons\<close>, and \<^verbatim>\<open>NewJanitorMetadata\<close> leaves the patterns empty.
\<close>

lemma Singletons_DeleteSingletons:
  "snd (Singletons (i\<lparr>DeleteSingletons := b\<rparr>) lg) =
     map_sum id (\<lambda>j. j\<lparr>DeleteSingletons := b\<rparr>) (snd (Singletons i lg))"
  by (simp add: Singletons_def split: prod.splits sum.splits)

lemma NewJanitorMetadata_BlacklistPatterns:
  "BlacklistPatterns (NewJanitorMetadata p e d b n) = []"
  by (simp add: NewJanitorMetadata_def)

lemma utils_sole_member_excluded:
  assumes "d \<noteq> []"
    and "filter (\<lambda>r. getResourceName (Name r) d = Some k) xs = [x]"
  shows "\<exists>ys. snd (getNonSingletonImages xs d lg) = Inr ys \<and>
           filter (\<lambda>r. getResourceName (Name r) d = Some k) ys = []"
  using getNonSingletonImages_groups [OF assms(1), of xs lg] assms(2) by auto

text \<open>
  The stage sees a resource as often as the loop over the patterns has appended it: a
  resource that two patterns do not match is listed twice, counts as the second member
  of its own scheme and becomes a candidate.
\<close>

lemma twice_appended_resource_is_a_candidate:
  "GetOldAndNonSingletonImages literalRegexp rfc3339_sample
     (\<lambda>token. Inr \<lparr>pageItems = [web1], NextPageToken = []\<rparr>)
     1546387200 False [''tmp'', ''keep''] ''-'' =
     Some ([ExcludedNewestOfKind ''web-1'' ''2019-01-01T00:00:00Z'',
            EligibleNotSingleton ''web-1'' ''2019-01-01T00:00:00Z'',
            SchemeIsSingleton ''web'',
            SelectedOlderThan ''web-1'' ''2019-01-01T00:00:00Z'' 1546387200], Inr [web1])"
  by code_simp

lemma utils_deleteSingletons_skips_stage:
  "GetOldAndNonSingletonImages rx parse imagesList t True blacklist d =
     (case listPages rx ''utils.go: Error getting images'' imagesList blacklist [] [] [] of
        None \<Rightarrow> None
      | Some (lg, Inl e) \<Rightarrow> Some (lg, Inl e)
      | Some (lg, Inr allImages) \<Rightarrow>
          (case getOldImages parse allImages t lg of
             (lg', Inl err) \<Rightarrow> Some (lg', Inl (Errorf ''utils.go: Unable to get old images'' err))
           | (lg', Inr old) \<Rightarrow> Some (lg', Inr old)))"
  by (simp add: GetOldAndNonSingletonImages_def split: option.splits prod.splits sum.splits)

text \<open>
  Claim C5 says that the sole member of a scheme is no candidate unless
  \<^verbatim>\<open>deleteSingletons\<close> is set, and that the stage is skipped when it is. With the flag
  set and the single resource \<^verbatim>\<open>web-1\<close>, \<^verbatim>\<open>Singletons\<close> of the janitor packages still
  removes it and the three stages end without items, while the selection of the utils
  skips the stage and selects it.
\<close>

theorem Singletons_runs_with_DeleteSingletons:
  "snd (Singletons
          \<lparr>Project = ''p'', Items = [web1], ExpiredBefore = 1546387200,
           DeleteSingletons = True, BlacklistPatterns = [], NameDelimiter = ''-''\<rparr> []) =
     Inr \<lparr>Project = ''p'', Items = [], ExpiredBefore = 1546387200,
          DeleteSingletons = True, BlacklistPatterns = [], NameDelimiter = ''-''\<rparr> \<and>
   snd (janitorStages literalRegexp (Expired_images rfc3339_sample)
          ((NewJanitorMetadata ''p'' 1546387200 True [] ''-'')\<lparr>Items := [web1]\<rparr>)) =
     Inr ((NewJanitorMetadata ''p'' 1546387200 True [] ''-'')\<lparr>Items := []\<rparr>) \<and>
   map_option snd
     (GetOldAndNonSingletonImages literalRegexp rfc3339_sample
        (\<lambda>token. Inr \<lparr>pageItems = [web1], NextPageToken = []\<rparr>)
        1546387200 True [''keep''] ''-'') = Some (Inr [web1])"
  by code_simp


section \<open>Dry runs\<close>

lemma isInvoke_Logged [simp]: "\<not> isInvoke (Logged l)"
  by (simp add: isInvoke_def)

lemma isInvoke_map_Logged [simp]: "filter isInvoke (map Logged lg) = []"
  by (induction lg) simp_all

lemma deleteImages_dry_run:
  "deleteImages rx parse imagesList del get sched chanLimit project tooOld d workers False ds bl =
     (case GetOldAndNonSingletonImages rx parse imagesList tooOld ds bl d of
        None \<Rightarrow> ([], NoReturn)
      | Some (lg, Inl err) \<Rightarrow>
          (map Logged lg @
             (if processEnded err then []
              else [Logged (FatalLine ''main.go: unable to get list of images'')]),
           ProcessExit)
      | Some (lg, Inr images) \<Rightarrow>
          (map Logged lg @ (if images = [] then [Logged NothingToDelete] else []), WgDone))"
  by (simp add: deleteImages_def split: option.splits prod.splits sum.splits)

lemma deleteImages_real_run:
  "\<exists>more. fst (deleteImages rx parse imagesList del get sched chanLimit project tooOld d workers True ds bl) =
     fst (deleteImages rx parse imagesList del get sched chanLimit project tooOld d workers False ds bl) @
     more"
  by (simp add: deleteImages_def Let_def
           split: option.splits prod.splits sum.splits engine_end.splits)

lemma deleteImages_invoke:
  "filter isInvoke
     (fst (deleteImages rx parse imagesList del get sched chanLimit project tooOld d workers notDryRun ds bl)) =
   (case GetOldAndNonSingletonImages rx parse imagesList tooOld ds bl d of
      Some (lg, Inr images) \<Rightarrow> if notDryRun then [InvokeParallelImages workers images] else []
    | _ \<Rightarrow> [])"
  by (simp add: deleteImages_def Let_def isInvoke_def
           split: option.splits prod.splits sum.splits engine_end.splits)

lemma deleteInstances_dry_run:
  "deleteInstances rx parse zonesList instancesList del get sched chanLimit project tooOld d workers False
     ds bl =
     (case GetOldAndNonSingletonInstances rx parse zonesList instancesList tooOld ds bl d of
        None \<Rightarrow> ([], NoReturn)
      | Some (lg, Inl err) \<Rightarrow>
          (map Logged lg @
             (if processEnded err then []
              else [Logged (FatalLine ''main.go: unable to get list of instances'')]),
           ProcessExit)
      | Some (lg, Inr instances) \<Rightarrow>
          (map Logged lg @ (if instances = [] then [Logged NothingToDelete] else []), WgDone))"
  by (simp add: deleteInstances_def split: option.splits prod.splits sum.splits)

lemma deleteInstances_real_run:
  "\<exists>more. fst (deleteInstances rx parse zonesList instancesList del get sched chanLimit project tooOld d
                 workers True ds bl) =
     fst (deleteInstances rx parse zonesList instancesList del get sched chanLimit project tooOld d
            workers False ds bl) @ more"
  by (simp add: deleteInstances_def Let_def
           split: option.splits prod.splits sum.splits engine_end.splits)

lemma deleteInstances_invoke:
  "filter isInvoke
     (fst (deleteInstances rx parse zonesList instancesList del get sched chanLimit project tooOld d
             workers notDryRun ds bl)) =
   (case GetOldAndNonSingletonInstances rx parse zonesList instancesList tooOld ds bl d of
      Some (lg, Inr instances) \<Rightarrow>
        if notDryRun then [InvokeParallelInstances workers instances] else []
    | _ \<Rightarrow> [])"
  by (simp add: deleteInstances_def Let_def isInvoke_def
           split: option.splits prod.splits sum.splits engine_end.splits)

text \<open>
  Claim C4. Without \<^verbatim>\<open>notDryRun\<close> the runs of \<^verbatim>\<open>deleteImages\<close> and
  \<^verbatim>\<open>deleteInstances\<close> hold no call of the deletion engine and do not depend on the
  deletion API or the scheduler at all; the selection runs in full, its whole log
  standing at the head of the run, and the dry run is the real run up to the point
  where the engine is started. An engine call occurs in a run only when \<^verbatim>\<open>notDryRun\<close>
  is set.
\<close>

theorem dry_run_never_invokes_the_engine:
  "filter isInvoke
     (fst (deleteImages rx parse imagesList del get sched chanLimit project tooOld d workers False ds bl))
     = [] \<and>
   filter isInvoke
     (fst (deleteInstances rx parse zonesList instancesList del get sched chanLimit project tooOld d
             workers False ds bl)) = [] \<and>
   deleteImages rx parse imagesList del get sched chanLimit project tooOld d workers False ds bl =
     deleteImages rx parse imagesList del' get' sched' chanLimit' project tooOld d workers False ds bl \<and>
   deleteInstances rx parse zonesList instancesList del get sched chanLimit project tooOld d workers
       False ds bl =
     deleteInstances rx parse zonesList instancesList del' get' sched' chanLimit' project tooOld d
       workers False ds bl \<and>
   (GetOldAndNonSingletonImages rx parse imagesList tooOld ds bl d = Some (lg, r) \<longrightarrow>
      prefix (map Logged lg)
        (fst (deleteImages rx parse imagesList del get sched chanLimit project tooOld d workers False
                ds bl))) \<and>
   (GetOldAndNonSingletonInstances rx parse zonesList instancesList tooOld ds bl d =
      Some (lg', r') \<longrightarrow>
      prefix (map Logged lg')
        (fst (deleteInstances rx parse zonesList instancesList del get sched chanLimit project tooOld d
                workers False ds bl))) \<and>
   prefix
     (fst (deleteImages rx parse imagesList del get sched chanLimit project tooOld d workers False ds bl))
     (fst (deleteImages rx parse imagesList del get sched chanLimit project tooOld d workers True ds bl)) \<and>
   prefix
     (fst (deleteInstances rx parse zonesList instancesList del get sched chanLimit project tooOld d
             workers False ds bl))
     (fst (deleteInstances rx parse zonesList instancesList del get sched chanLimit project tooOld d
             workers True ds bl)) \<and>
   (isInvoke ev \<and>
    (ev \<in> set (fst (deleteImages rx parse imagesList del get sched chanLimit project tooOld d workers
                      notDryRun ds bl)) \<or>
     ev \<in> set (fst (deleteInstances rx parse zonesList instancesList del get sched chanLimit project
                      tooOld d workers notDryRun ds bl))) \<longrightarrow> notDryRun)"
proof -
  have a: "filter isInvoke
     (fst (deleteImages rx parse imagesList del get sched chanLimit project tooOld d workers False ds bl))
     = []"
    by (simp add: deleteImages_invoke split: option.splits prod.splits sum.splits)
  have b: "filter isInvoke
     (fst (deleteInstances rx parse zonesList instancesList del get sched chanLimit project tooOld d
             workers False ds bl)) = []"
    by (simp add: deleteInstances_invoke split: option.splits prod.splits sum.splits)
  have c: "deleteImages rx parse imagesList del get sched chanLimit project tooOld d workers False ds bl =
     deleteImages rx parse imagesList del' get' sched' chanLimit' project tooOld d workers False ds bl"
    by (simp only: deleteImages_dry_run)
  have d: "deleteInstances rx parse zonesList instancesList del get sched chanLimit project tooOld d
       workers False ds bl =
     deleteInstances rx parse zonesList instancesList del' get' sched' chanLimit' project tooOld d
       workers False ds bl"
    by (simp only: deleteInstances_dry_run)
  have e: "prefix (map Logged lg)
        (fst (deleteImages rx parse imagesList del get sched chanLimit project tooOld d workers False
                ds bl))"
    if "GetOldAndNonSingletonImages rx parse imagesList tooOld ds bl d = Some (lg, r)"
    using that by (cases r) (simp_all add: deleteImages_dry_run)
  have f: "prefix (map Logged lg')
        (fst (deleteInstances rx parse zonesList instancesList del get sched chanLimit project tooOld d
                workers False ds bl))"
    if "GetOldAndNonSingletonInstances rx parse zonesList instancesList tooOld ds bl d =
      Some (lg', r')"
    using that by (cases r') (simp_all add: deleteInstances_dry_run)
  have g: "prefix
     (fst (deleteImages rx parse imagesList del get sched chanLimit project tooOld d workers False ds bl))
     (fst (deleteImages rx parse imagesList del get sched chanLimit project tooOld d workers True ds bl))"
    using deleteImages_real_run [of rx parse imagesList del get sched chanLimit project tooOld d workers
        ds bl]
    by (auto simp: prefix_def)
  have h: "prefix
     (fst (deleteInstances rx parse zonesList instancesList del get sched chanLimit project tooOld d
             workers False ds bl))
     (fst (deleteInstances rx parse zonesList instancesList del get sched chanLimit project tooOld d
             workers True ds bl))"
    using deleteInstances_real_run [of rx parse zonesList instancesList del get sched chanLimit project
        tooOld d workers ds bl]
    by (auto simp: prefix_def)
  have i: notDryRun
    if "isInvoke ev"
      and "ev \<in> set (fst (deleteImages rx parse imagesList del get sched chanLimit project tooOld d
                            workers notDryRun ds bl)) \<or>
           ev \<in> set (fst (deleteInstances rx parse zonesList instancesList del get sched chanLimit
                            project tooOld d workers notDryRun ds bl))"
  proof (rule ccontr)
    assume "\<not> notDryRun"
    then have n: "notDryRun = False" by simp
    from that(2) show False
    proof
      assume "ev \<in> set (fst (deleteImages rx parse imagesList del get sched chanLimit project tooOld d
                            workers notDryRun ds bl))"
      with that(1) have "ev \<in> set (filter isInvoke
          (fst (deleteImages rx parse imagesList del get sched chanLimit project tooOld d
                            workers notDryRun ds bl)))"
        by simp
      with a n show False by simp
    next
      assume "ev \<in> set (fst (deleteInstances rx parse zonesList instancesList del get sched chanLimit
                            project tooOld d workers notDryRun ds bl))"
      with that(1) have "ev \<in> set (filter isInvoke
          (fst (deleteInstances rx parse zonesList instancesList del get sched chanLimit
                            project tooOld d workers notDryRun ds bl)))"
        by simp
      with b n show False by simp
    qed
  qed
  from a b c d e f g h i show ?thesis by blast
qed

theorem dry_run_never_invokes_the_engine_witness:
  "GetOldAndNonSingletonImages literalRegexp rfc3339_sample
     (\<lambda>token. Inr \<lparr>pageItems = [web2, web1], NextPageToken = []\<rparr>)
     1546387200 False [''keep''] ''-'' =
     Some ([ExcludedNewestOfKind ''web-2'' ''2019-01-02T00:00:00Z'',
            EligibleNotSingleton ''web-1'' ''2019-01-01T00:00:00Z'',
            SchemeIsSingleton ''web'',
            SelectedOlderThan ''web-1'' ''2019-01-01T00:00:00Z'' 1546387200], Inr [web1]) \<and>
   prefix
     (map Logged [ExcludedNewestOfKind ''web-2'' ''2019-01-02T00:00:00Z'',
                  EligibleNotSingleton ''web-1'' ''2019-01-01T00:00:00Z'',
                  SchemeIsSingleton ''web'',
                  SelectedOlderThan ''web-1'' ''2019-01-01T00:00:00Z'' 1546387200])
     (fst (deleteImages literalRegexp rfc3339_sample
             (\<lambda>token. Inr \<lparr>pageItems = [web2, web1], NextPageToken = []\<rparr>)
             deleteAccepted doneAtThirdQuery firstWorkerTakesAll 1024
             ''p'' 1546387200 ''-'' 1 False False [''keep''])) \<and>
   filter isInvoke
     (fst (deleteImages literalRegexp rfc3339_sample
             (\<lambda>token. Inr \<lparr>pageItems = [web2, web1], NextPageToken = []\<rparr>)
             deleteAccepted doneAtThirdQuery firstWorkerTakesAll 1024
             ''p'' 1546387200 ''-'' 1 False False [''keep''])) = [] \<and>
   isInvoke (InvokeParallelImages 1 [web1]) \<and>
   InvokeParallelImages 1 [web1] \<in>
     set (fst (deleteImages literalRegexp rfc3339_sample
                 (\<lambda>token. Inr \<lparr>pageItems = [web2, web1], NextPageToken = []\<rparr>)
                 deleteAccepted doneAtThirdQuery firstWorkerTakesAll 1024
                 ''p'' 1546387200 ''-'' 1 True False [''keep'']))"
proof -
  let ?list = "\<lambda>token :: string. Inr \<lparr>pageItems = [web2, web1], NextPageToken = []\<rparr>
                 :: error + page"
  let ?lg = "[ExcludedNewestOfKind ''web-2'' ''2019-01-02T00:00:00Z'',
              EligibleNotSingleton ''web-1'' ''2019-01-01T00:00:00Z'',
              SchemeIsSingleton ''web'',
              SelectedOlderThan ''web-1'' ''2019-01-01T00:00:00Z'' 1546387200]"
  have sel: "GetOldAndNonSingletonImages literalRegexp rfc3339_sample ?list
               1546387200 False [''keep''] ''-'' = Some (?lg, Inr [web1])"
    by code_simp
  have inv: "isInvoke (InvokeParallelImages 1 [web1])"
    by (simp add: isInvoke_def)
  have run: "InvokeParallelImages 1 [web1] \<in>
     set (fst (deleteImages literalRegexp rfc3339_sample ?list
                 deleteAccepted doneAtThirdQuery firstWorkerTakesAll 1024
                 ''p'' 1546387200 ''-'' 1 True False [''keep'']))"
    by code_simp
  note inst = dry_run_never_invokes_the_engine
    [of literalRegexp rfc3339_sample ?list deleteAccepted doneAtThirdQuery firstWorkerTakesAll
        1024 "''p''" 1546387200 "''-''" 1 False "[''keep'']" _ _ _ _ _ _ ?lg "Inr [web1]"]
  from inst sel have p: "prefix (map Logged ?lg)
     (fst (deleteImages literalRegexp rfc3339_sample ?list
             deleteAccepted doneAtThirdQuery firstWorkerTakesAll 1024
             ''p'' 1546387200 ''-'' 1 False False [''keep'']))"
    by blast
  from inst have f: "filter isInvoke
     (fst (deleteImages literalRegexp rfc3339_sample ?list
             deleteAccepted doneAtThirdQuery firstWorkerTakesAll 1024
             ''p'' 1546387200 ''-'' 1 False False [''keep''])) = []"
    by blast
  from sel p f inv run show ?thesis by blast
qed


section \<open>The polling loop\<close>













section \<open>Failed jobs\<close>

lemma deleteWorker_fatal:
  assumes "\<forall>c' \<in> set pre. jobDone del get project c'" and "jobFails del get project c"
  shows "\<exists>evs. \<forall>post. deleteWorker del get wid project (pre @ c # post) =
                         Some (evs, if isl (del c) then ProcessExited else ProcessPanicked)"
  using assms(1)
proof (induction pre)
  case Nil
  show ?case
  proof (cases "del c")
    case (Inl err)
    then show ?thesis by simp
  next
    case (Inr deleteOperation)
    with assms(2) obtain answers where
      "pollLoop (get (operationQuery project deleteOperation)) 0 [] = Some answers"
      "isl (last answers)"
      by (auto simp: jobFails_def split: option.splits)
    with Inr show ?thesis by (auto simp: isl_def)
  qed
next
  case (Cons p pre)
  then obtain evs where evs:
    "\<And>post. deleteWorker del get wid project (pre @ c # post) =
        Some (evs, if isl (del c) then ProcessExited else ProcessPanicked)"
    by auto
  from Cons.prems obtain deleteOperation answers where p:
    "del p = Inr deleteOperation"
    "pollLoop (get (operationQuery project deleteOperation)) 0 [] = Some answers"
    "\<not> isl (last answers)"
    by (auto simp: jobDone_def split: sum.splits option.splits)
  then obtain fin where "last answers = Inr fin"
    by (cases "last answers") auto
  with p evs show ?case by simp
qed

lemma deleteWorker_janitor_calls_fatal:
  assumes "\<forall>c' \<in> set pre. jobDone del get (callProject c') c'"
    and "jobFails del get (callProject c) c"
  shows "\<exists>evs. \<forall>post. deleteWorker_janitor_calls del get wid (pre @ c # post) =
                         Some (evs, if isl (del c) then ProcessExited else ProcessPanicked)"
  using assms(1)
proof (induction pre)
  case Nil
  show ?case
  proof (cases "del c")
    case (Inl err)
    then show ?thesis by simp
  next
    case (Inr deleteOperation)
    with assms(2) obtain answers where
      "pollLoop (get (operationQuery (callProject c) deleteOperation)) 0 [] = Some answers"
      "isl (last answers)"
      by (auto simp: jobFails_def split: option.splits)
    with Inr show ?thesis by (auto simp: isl_def)
  qed
next
  case (Cons p pre)
  then obtain evs where evs:
    "\<And>post. deleteWorker_janitor_calls del get wid (pre @ c # post) =
        Some (evs, if isl (del c) then ProcessExited else ProcessPanicked)"
    by auto
  from Cons.prems obtain deleteOperation answers where p:
    "del p = Inr deleteOperation"
    "pollLoop (get (operationQuery (callProject p) deleteOperation)) 0 [] = Some answers"
    "\<not> isl (last answers)"
    by (auto simp: jobDone_def split: sum.splits option.splits)
  then obtain fin where "last answers = Inr fin"
    by (cases "last answers") auto
  with p evs show ?case by simp
qed

lemma deleteWorker_janitor_fatal:
  assumes "\<forall>c' \<in> set pre. jobDone del get (callProject c') c'"
    and "jobFails del get (callProject c) c"
  shows "\<exists>evs. \<forall>post. deleteWorker_janitor del get wid (pre @ c # post) =
                         Some (evs, if isl (del c) then ProcessExited else ProcessPanicked)"
proof -
  from deleteWorker_janitor_calls_fatal [OF assms, of wid] obtain evs where
    "\<And>post. deleteWorker_janitor_calls del get wid (pre @ c # post) =
        Some (evs, if isl (del c) then ProcessExited else ProcessPanicked)"
    by blast
  then have "\<forall>post. deleteWorker_janitor del get wid (pre @ c # post) =
      Some (Logged (WorkerStarting (fst wid) (snd wid)) # evs,
            if isl (del c) then ProcessExited else ProcessPanicked)"
    by (simp add: deleteWorker_janitor_def)
  then show ?thesis by blast
qed

lemma deleteWorker_stopped_iff:
  "(\<exists>evs. deleteWorker del get wid project calls = Some (evs, WorkerStopped)) \<longleftrightarrow>
   (\<forall>c \<in> set calls. jobDone del get project c)"
proof (induction calls)
  case Nil
  show ?case by simp
next
  case (Cons c calls)
  show ?case
  proof
    assume "\<exists>evs. deleteWorker del get wid project (c # calls) = Some (evs, WorkerStopped)"
    then obtain evs where "deleteWorker del get wid project (c # calls) = Some (evs, WorkerStopped)"
      by blast
    then obtain deleteOperation answers fin evs' where
      "del c = Inr deleteOperation"
      "pollLoop (get (operationQuery project deleteOperation)) 0 [] = Some answers"
      "last answers = Inr fin"
      "deleteWorker del get wid project calls = Some (evs', WorkerStopped)"
      by (auto split: sum.splits option.splits prod.splits)
    with Cons.IH show "\<forall>c' \<in> set (c # calls). jobDone del get project c'"
      by (auto simp: jobDone_def)
  next
    assume a: "\<forall>c' \<in> set (c # calls). jobDone del get project c'"
    with Cons.IH obtain evs' where
      rest: "deleteWorker del get wid project calls = Some (evs', WorkerStopped)"
      by auto
    from a obtain deleteOperation answers where p:
      "del c = Inr deleteOperation"
      "pollLoop (get (operationQuery project deleteOperation)) 0 [] = Some answers"
      "\<not> isl (last answers)"
      by (auto simp: jobDone_def split: sum.splits option.splits)
    then obtain fin where "last answers = Inr fin"
      by (cases "last answers") auto
    with p rest show "\<exists>evs. deleteWorker del get wid project (c # calls) = Some (evs, WorkerStopped)"
      by simp
  qed
qed

lemma deleteWorker_janitor_calls_stopped_iff:
  "(\<exists>evs. deleteWorker_janitor_calls del get wid calls = Some (evs, WorkerStopped)) \<longleftrightarrow>
   (\<forall>c \<in> set calls. jobDone del get (callProject c) c)"
proof (induction calls)
  case Nil
  show ?case by simp
next
  case (Cons c calls)
  show ?case
  proof
    assume "\<exists>evs. deleteWorker_janitor_calls del get wid (c # calls) = Some (evs, WorkerStopped)"
    then obtain evs where
      "deleteWorker_janitor_calls del get wid (c # calls) = Some (evs, WorkerStopped)"
      by blast
    then obtain deleteOperation answers fin evs' where
      "del c = Inr deleteOperation"
      "pollLoop (get (operationQuery (callProject c) deleteOperation)) 0 [] = Some answers"
      "last answers = Inr fin"
      "deleteWorker_janitor_calls del get wid calls = Some (evs', WorkerStopped)"
      by (auto split: sum.splits option.splits prod.splits)
    with Cons.IH show "\<forall>c' \<in> set (c # calls). jobDone del get (callProject c') c'"
      by (auto simp: jobDone_def)
  next
    assume a: "\<forall>c' \<in> set (c # calls). jobDone del get (callProject c') c'"
    with Cons.IH obtain evs' where
      rest: "deleteWorker_janitor_calls del get wid calls = Some (evs', WorkerStopped)"
      by auto
    from a obtain deleteOperation answers where p:
      "del c = Inr deleteOperation"
      "pollLoop (get (operationQuery (callProject c) deleteOperation)) 0 [] = Some answers"
      "\<not> isl (last answers)"
      by (auto simp: jobDone_def split: sum.splits option.splits)
    then obtain fin where "last answers = Inr fin"
      by (cases "last answers") auto
    with p rest
    show "\<exists>evs. deleteWorker_janitor_calls del get wid (c # calls) = Some (evs, WorkerStopped)"
      by simp
  qed
qed

lemma deleteWorker_janitor_stopped_iff:
  "(\<exists>evs. deleteWorker_janitor del get wid calls = Some (evs, WorkerStopped)) \<longleftrightarrow>
   (\<forall>c \<in> set calls. jobDone del get (callProject c) c)"
proof -
  have "(\<exists>evs. deleteWorker_janitor del get wid calls = Some (evs, WorkerStopped)) \<longleftrightarrow>
        (\<exists>evs. deleteWorker_janitor_calls del get wid calls = Some (evs, WorkerStopped))"
    by (auto simp: deleteWorker_janitor_def split: option.splits)
  then show ?thesis by (simp only: deleteWorker_janitor_calls_stopped_iff)
qed

lemma engineEnd_no_error: "engineEnd runs \<noteq> Returned (Some e)"
  by (simp add: engineEnd_def)

lemma runEngine_no_error:
  "runEngine worker name workers jobs sched chanLimit \<noteq> Returned (Some e)"
  by (simp add: runEngine_def engineEnd_no_error)

lemma runEngine_exit:
  assumes "w < nat workers" and "endsProcess (worker (name, w) (sched jobs w))"
  shows "runEngine worker name workers jobs sched chanLimit = EngineExit"
proof -
  from assms(1) have pos: "\<not> workers < 0" "workers \<noteq> 0" by auto
  from assms have "\<exists>r \<in> set (map (\<lambda>w. worker (name, w) (sched jobs w)) [0..<nat workers]).
                     endsProcess r"
    by force
  then have "list_ex endsProcess
               (map (\<lambda>w. worker (name, w) (sched jobs w)) [0..<nat workers])"
    by (simp only: list_ex_iff)
  with pos show ?thesis by (simp add: runEngine_def engineEnd_def)
qed

lemma runEngine_returns:
  assumes "0 < workers" and "workers \<le> int chanLimit"
    and "\<forall>w < nat workers. \<exists>evs. worker (name, w) (sched jobs w) = Some (evs, WorkerStopped)"
  shows "runEngine worker name workers jobs sched chanLimit = Returned None"
proof -
  let ?runs = "map (\<lambda>w. worker (name, w) (sched jobs w)) [0..<nat workers]"
  from assms(3) have "\<forall>r \<in> set ?runs. \<exists>evs. r = Some (evs, WorkerStopped)"
    by auto
  then have "\<not> list_ex endsProcess ?runs" "\<not> list_ex (\<lambda>r. r = None) ?runs"
    by (auto simp: list_ex_iff endsProcess_def)
  with assms(1,2) show ?thesis by (simp add: runEngine_def engineEnd_def)
qed

text \<open>
  Claim C6, as amended. A failed delete call and a failed status query are not failures
  of one job: the worker of either package ends the process at the first job that
  fails, whatever jobs come after it, so none of them is issued, and each of the three
  engines ends with the process. The process ends by \<^verbatim>\<open>log.Fatalf\<close> when the delete call
  failed and by the panic when a status query failed. A worker stops exactly when every
  job it received is done; an engine whose workers all stop returns \<^verbatim>\<open>nil\<close>, and no
  engine ever returns an error.
\<close>

theorem failed_job_ends_the_process:
  "((\<forall>c' \<in> set pre. jobDone del get project c') \<and> jobFails del get project c \<longrightarrow>
      (\<exists>evs. \<forall>post. deleteWorker del get wid project (pre @ c # post) =
                        Some (evs, if isl (del c) then ProcessExited else ProcessPanicked))) \<and>
   ((\<forall>c' \<in> set pre. jobDone del get (callProject c') c') \<and>
    jobFails del get (callProject c) c \<longrightarrow>
      (\<exists>evs. \<forall>post. deleteWorker_janitor del get wid (pre @ c # post) =
                        Some (evs, if isl (del c) then ProcessExited else ProcessPanicked))) \<and>
   (w < nat workers \<and>
    sched (map (\<lambda>img. ImagesDelete project (Name img)) imageList) w = pre @ c # post \<and>
    (\<forall>c' \<in> set pre. jobDone del get project c') \<and> jobFails del get project c \<longrightarrow>
      ParallelImages del get project workers imageList sched chanLimit = EngineExit) \<and>
   (w < nat workers \<and>
    sched (map (\<lambda>instance. InstancesDelete project (sanitizeResourceURL (Zone instance))
                              (Name instance)) instanceList) w = pre @ c # post \<and>
    (\<forall>c' \<in> set pre. jobDone del get project c') \<and> jobFails del get project c \<longrightarrow>
      ParallelInstances del get project workers instanceList sched chanLimit = EngineExit) \<and>
   (w < nat workers \<and> sched jobs w = pre @ c # post \<and>
    (\<forall>c' \<in> set pre. jobDone del get (callProject c') c') \<and>
    jobFails del get (callProject c) c \<longrightarrow>
      Parallel del get workers jobs sched chanLimit = EngineExit) \<and>
   ((\<exists>evs. deleteWorker del get wid project calls = Some (evs, WorkerStopped)) \<longleftrightarrow>
      (\<forall>c' \<in> set calls. jobDone del get project c')) \<and>
   ((\<exists>evs. deleteWorker_janitor del get wid calls = Some (evs, WorkerStopped)) \<longleftrightarrow>
      (\<forall>c' \<in> set calls. jobDone del get (callProject c') c')) \<and>
   (0 < workers \<and> workers \<le> int chanLimit \<and>
    (\<forall>w' < nat workers.
       \<forall>c' \<in> set (sched (map (\<lambda>img. ImagesDelete project (Name img)) imageList) w').
         jobDone del get project c') \<longrightarrow>
      ParallelImages del get project workers imageList sched chanLimit = Returned None) \<and>
   (0 < workers \<and> workers \<le> int chanLimit \<and>
    (\<forall>w' < nat workers.
       \<forall>c' \<in> set (sched (map (\<lambda>instance. InstancesDelete project
                                              (sanitizeResourceURL (Zone instance))
                                              (Name instance)) instanceList) w').
         jobDone del get project c') \<longrightarrow>
      ParallelInstances del get project workers instanceList sched chanLimit = Returned None) \<and>
   (0 < workers \<and> workers \<le> int chanLimit \<and>
    (\<forall>w' < nat workers. \<forall>c' \<in> set (sched jobs w'). jobDone del get (callProject c') c') \<longrightarrow>
      Parallel del get workers jobs sched chanLimit = Returned None) \<and>
   ParallelImages del get project workers imageList sched chanLimit \<noteq> Returned (Some e) \<and>
   ParallelInstances del get project workers instanceList sched chanLimit \<noteq> Returned (Some e) \<and>
   Parallel del get workers jobs sched chanLimit \<noteq> Returned (Some e)"
proof -
  let ?imageJobs = "map (\<lambda>img. ImagesDelete project (Name img)) imageList"
  let ?instanceJobs = "map (\<lambda>instance. InstancesDelete project
                               (sanitizeResourceURL (Zone instance)) (Name instance)) instanceList"
  have a: "\<exists>evs. \<forall>post. deleteWorker del get wid project (pre @ c # post) =
                        Some (evs, if isl (del c) then ProcessExited else ProcessPanicked)"
    if "(\<forall>c' \<in> set pre. jobDone del get project c') \<and> jobFails del get project c"
    using that deleteWorker_fatal by blast
  have b: "\<exists>evs. \<forall>post. deleteWorker_janitor del get wid (pre @ c # post) =
                        Some (evs, if isl (del c) then ProcessExited else ProcessPanicked)"
    if "(\<forall>c' \<in> set pre. jobDone del get (callProject c') c') \<and>
        jobFails del get (callProject c) c"
    using that deleteWorker_janitor_fatal by blast
  have ends: "endsProcess (deleteWorker del get (name, w) project (pre @ c # post))"
    if "\<forall>c' \<in> set pre. jobDone del get project c'" "jobFails del get project c" for name
    using deleteWorker_fatal [OF that, of "(name, w)"]
    by (auto simp: endsProcess_def split: if_splits)
  have endsj: "endsProcess (deleteWorker_janitor del get (name, w) (pre @ c # post))"
    if "\<forall>c' \<in> set pre. jobDone del get (callProject c') c'"
      "jobFails del get (callProject c) c" for name
    using deleteWorker_janitor_fatal [OF that, of "(name, w)"]
    by (auto simp: endsProcess_def split: if_splits)
  have c1: "ParallelImages del get project workers imageList sched chanLimit = EngineExit"
    if h: "w < nat workers \<and> sched ?imageJobs w = pre @ c # post \<and>
      (\<forall>c' \<in> set pre. jobDone del get project c') \<and> jobFails del get project c"
    unfolding ParallelImages_def
    using h ends [of "''image-worker-''"]
    by (intro runEngine_exit [where w = w]) simp_all
  have c2: "ParallelInstances del get project workers instanceList sched chanLimit = EngineExit"
    if h: "w < nat workers \<and> sched ?instanceJobs w = pre @ c # post \<and>
      (\<forall>c' \<in> set pre. jobDone del get project c') \<and> jobFails del get project c"
    unfolding ParallelInstances_def
    using h ends [of "''delete.go: instance-worker-''"]
    by (intro runEngine_exit [where w = w]) simp_all
  have c3: "Parallel del get workers jobs sched chanLimit = EngineExit"
    if h: "w < nat workers \<and> sched jobs w = pre @ c # post \<and>
      (\<forall>c' \<in> set pre. jobDone del get (callProject c') c') \<and>
      jobFails del get (callProject c) c"
    unfolding Parallel_def
    using h endsj [of "''instance-worker-''"]
    by (intro runEngine_exit [where w = w]) simp_all
  have d1: "(\<exists>evs. deleteWorker del get wid project calls = Some (evs, WorkerStopped)) \<longleftrightarrow>
      (\<forall>c' \<in> set calls. jobDone del get project c')"
    by (rule deleteWorker_stopped_iff)
  have d2: "(\<exists>evs. deleteWorker_janitor del get wid calls = Some (evs, WorkerStopped)) \<longleftrightarrow>
      (\<forall>c' \<in> set calls. jobDone del get (callProject c') c')"
    by (rule deleteWorker_janitor_stopped_iff)
  have r1: "ParallelImages del get project workers imageList sched chanLimit = Returned None"
    if h: "0 < workers \<and> workers \<le> int chanLimit \<and>
      (\<forall>w' < nat workers. \<forall>c' \<in> set (sched ?imageJobs w'). jobDone del get project c')"
    unfolding ParallelImages_def
    using h by (intro runEngine_returns) (simp_all add: deleteWorker_stopped_iff)
  have r2: "ParallelInstances del get project workers instanceList sched chanLimit =
      Returned None"
    if h: "0 < workers \<and> workers \<le> int chanLimit \<and>
      (\<forall>w' < nat workers. \<forall>c' \<in> set (sched ?instanceJobs w'). jobDone del get project c')"
    unfolding ParallelInstances_def
    using h by (intro runEngine_returns) (simp_all add: deleteWorker_stopped_iff)
  have r3: "Parallel del get workers jobs sched chanLimit = Returned None"
    if h: "0 < workers \<and> workers \<le> int chanLimit \<and>
      (\<forall>w' < nat workers. \<forall>c' \<in> set (sched jobs w'). jobDone del get (callProject c') c')"
    unfolding Parallel_def
    using h by (intro runEngine_returns) (simp_all add: deleteWorker_janitor_stopped_iff)
  have e: "ParallelImages del get project workers imageList sched chanLimit \<noteq> Returned (Some e)"
    "ParallelInstances del get project workers instanceList sched chanLimit \<noteq>
       Returned (Some e)"
    "Parallel del get workers jobs sched chanLimit \<noteq> Returned (Some e)"
    by (simp_all add: ParallelImages_def ParallelInstances_def Parallel_def runEngine_no_error)
  show ?thesis
    apply (intro conjI)
    using a apply blast
    using b apply blast
    using c1 apply blast
    using c2 apply blast
    using c3 apply blast
    using d1 apply blast
    using d2 apply blast
    using r1 apply blast
    using r2 apply blast
    using r3 apply blast
    using e apply simp_all
    done
qed


theorem failed_job_ends_the_process_witness:
  "jobDone deleteRefusesWeb1 doneAtThirdQuery ''p'' (ImagesDelete ''p'' ''api-1'') \<and>
   jobFails deleteRefusesWeb1 doneAtThirdQuery ''p'' (ImagesDelete ''p'' ''web-1'') \<and>
   (\<exists>evs.
      deleteWorker deleteRefusesWeb1 doneAtThirdQuery (''image-worker-'', 0) ''p''
        [ImagesDelete ''p'' ''api-1'', ImagesDelete ''p'' ''web-1''] =
        Some (evs, ProcessExited) \<and>
      deleteWorker deleteRefusesWeb1 doneAtThirdQuery (''image-worker-'', 0) ''p''
        [ImagesDelete ''p'' ''api-1'', ImagesDelete ''p'' ''web-1'',
         ImagesDelete ''p'' ''web-2''] = Some (evs, ProcessExited)) \<and>
   ParallelImages deleteRefusesWeb1 doneAtThirdQuery ''p'' 1 [api1, web1, web2]
     firstWorkerTakesAll 1024 = EngineExit \<and>
   Parallel deleteRefusesWeb1 doneAtThirdQuery 1
     [ImagesDelete ''p'' ''api-1'', ImagesDelete ''p'' ''web-1'', ImagesDelete ''p'' ''web-2'']
     firstWorkerTakesAll 1024 = EngineExit \<and>
   jobFails deleteAccepted queryUnavailable ''p'' (InstancesDelete ''p'' ''zone-a'' ''web-1'') \<and>
   (\<exists>evs. deleteWorker deleteAccepted queryUnavailable (''delete.go: instance-worker-'', 0) ''p''
        [InstancesDelete ''p'' ''zone-a'' ''web-1'', InstancesDelete ''p'' ''zone-b'' ''web-2''] =
        Some (evs, ProcessPanicked)) \<and>
   ParallelInstances deleteAccepted queryUnavailable ''p'' 1 [vm1, vm2]
     firstWorkerTakesAll 1024 = EngineExit \<and>
   jobDone deleteAccepted doneAtThirdQuery ''p'' (ImagesDelete ''p'' ''web-1'') \<and>
   jobDone deleteAccepted doneAtThirdQuery ''p'' (ImagesDelete ''p'' ''web-2'') \<and>
   ParallelImages deleteAccepted doneAtThirdQuery ''p'' 1 [web1, web2]
     firstWorkerTakesAll 1024 = Returned None"
proof -
  have h1: "\<forall>c' \<in> set [ImagesDelete ''p'' ''api-1''].
              jobDone deleteRefusesWeb1 doneAtThirdQuery ''p'' c'"
    by code_simp
  have h1j: "\<forall>c' \<in> set [ImagesDelete ''p'' ''api-1''].
              jobDone deleteRefusesWeb1 doneAtThirdQuery (callProject c') c'"
    by code_simp
  have h2: "jobFails deleteRefusesWeb1 doneAtThirdQuery ''p'' (ImagesDelete ''p'' ''web-1'')"
    by code_simp
  have h2j: "jobFails deleteRefusesWeb1 doneAtThirdQuery
               (callProject (ImagesDelete ''p'' ''web-1'')) (ImagesDelete ''p'' ''web-1'')"
    by code_simp
  have h3: "(0 :: nat) < nat 1" by simp
  have h4: "firstWorkerTakesAll (map (\<lambda>img. ImagesDelete ''p'' (Name img)) [api1, web1, web2]) 0 =
              [ImagesDelete ''p'' ''api-1''] @ ImagesDelete ''p'' ''web-1'' #
              [ImagesDelete ''p'' ''web-2'']"
    by code_simp
  have h4j: "firstWorkerTakesAll [ImagesDelete ''p'' ''api-1'', ImagesDelete ''p'' ''web-1'',
                ImagesDelete ''p'' ''web-2''] 0 =
              [ImagesDelete ''p'' ''api-1''] @ ImagesDelete ''p'' ''web-1'' #
              [ImagesDelete ''p'' ''web-2'']"
    by code_simp
  have isl: "isl (deleteRefusesWeb1 (ImagesDelete ''p'' ''web-1''))"
    by code_simp
  note inst = failed_job_ends_the_process
    [where pre = "[ImagesDelete ''p'' ''api-1'']" and del = deleteRefusesWeb1
       and get = doneAtThirdQuery and project = "''p''" and c = "ImagesDelete ''p'' ''web-1''"
       and wid = "(''image-worker-'', 0)" and w = 0 and workers = 1
       and imageList = "[api1, web1, web2]" and sched = firstWorkerTakesAll
       and post = "[ImagesDelete ''p'' ''web-2'']" and chanLimit = 1024
       and jobs = "[ImagesDelete ''p'' ''api-1'', ImagesDelete ''p'' ''web-1'',
                    ImagesDelete ''p'' ''web-2'']"]
  from inst [THEN conjunct1] h1 h2 obtain evs where
    "\<forall>post. deleteWorker deleteRefusesWeb1 doneAtThirdQuery (''image-worker-'', 0) ''p''
        ([ImagesDelete ''p'' ''api-1''] @ ImagesDelete ''p'' ''web-1'' # post) =
        Some (evs, if isl (deleteRefusesWeb1 (ImagesDelete ''p'' ''web-1''))
                   then ProcessExited else ProcessPanicked)"
    by blast
  with isl have evs:
    "\<forall>post. deleteWorker deleteRefusesWeb1 doneAtThirdQuery (''image-worker-'', 0) ''p''
        ([ImagesDelete ''p'' ''api-1''] @ ImagesDelete ''p'' ''web-1'' # post) =
        Some (evs, ProcessExited)"
    by simp
  from evs [rule_format, of "[]"] evs [rule_format, of "[ImagesDelete ''p'' ''web-2'']"]
  have a: "\<exists>evs.
      deleteWorker deleteRefusesWeb1 doneAtThirdQuery (''image-worker-'', 0) ''p''
        [ImagesDelete ''p'' ''api-1'', ImagesDelete ''p'' ''web-1''] =
        Some (evs, ProcessExited) \<and>
      deleteWorker deleteRefusesWeb1 doneAtThirdQuery (''image-worker-'', 0) ''p''
        [ImagesDelete ''p'' ''api-1'', ImagesDelete ''p'' ''web-1'',
         ImagesDelete ''p'' ''web-2''] = Some (evs, ProcessExited)"
    by auto
  from inst [THEN conjunct2, THEN conjunct2, THEN conjunct1] h1 h2 h3 h4
  have b: "ParallelImages deleteRefusesWeb1 doneAtThirdQuery ''p'' 1 [api1, web1, web2]
     firstWorkerTakesAll 1024 = EngineExit"
    by blast
  from inst [THEN conjunct2, THEN conjunct2, THEN conjunct2, THEN conjunct2, THEN conjunct1]
    h1j h2j h3 h4j
  have bj: "Parallel deleteRefusesWeb1 doneAtThirdQuery 1
     [ImagesDelete ''p'' ''api-1'', ImagesDelete ''p'' ''web-1'', ImagesDelete ''p'' ''web-2'']
     firstWorkerTakesAll 1024 = EngineExit"
    by blast
  have k2: "jobFails deleteAccepted queryUnavailable ''p''
              (InstancesDelete ''p'' ''zone-a'' ''web-1'')"
    by code_simp
  have k4: "firstWorkerTakesAll
              (map (\<lambda>instance. InstancesDelete ''p'' (sanitizeResourceURL (Zone instance))
                                  (Name instance)) [vm1, vm2]) 0 =
              [] @ InstancesDelete ''p'' ''zone-a'' ''web-1'' #
              [InstancesDelete ''p'' ''zone-b'' ''web-2'']"
    by code_simp
  have nisl: "\<not> isl (deleteAccepted (InstancesDelete ''p'' ''zone-a'' ''web-1''))"
    by code_simp
  note inst2 = failed_job_ends_the_process
    [where pre = "[]" and del = deleteAccepted
       and get = queryUnavailable and project = "''p''"
       and c = "InstancesDelete ''p'' ''zone-a'' ''web-1''"
       and wid = "(''delete.go: instance-worker-'', 0)" and w = 0 and workers = 1
       and instanceList = "[vm1, vm2]" and sched = firstWorkerTakesAll
       and post = "[InstancesDelete ''p'' ''zone-b'' ''web-2'']" and chanLimit = 1024]
  have k1: "\<forall>c' \<in> set []. jobDone deleteAccepted queryUnavailable ''p'' c'"
    by simp
  from inst2 [THEN conjunct1] k1 k2 obtain evs2 where
    "\<forall>post. deleteWorker deleteAccepted queryUnavailable (''delete.go: instance-worker-'', 0)
        ''p'' ([] @ InstancesDelete ''p'' ''zone-a'' ''web-1'' # post) =
        Some (evs2, if isl (deleteAccepted (InstancesDelete ''p'' ''zone-a'' ''web-1''))
                    then ProcessExited else ProcessPanicked)"
    by blast
  with nisl have evs2:
    "\<forall>post. deleteWorker deleteAccepted queryUnavailable (''delete.go: instance-worker-'', 0)
        ''p'' ([] @ InstancesDelete ''p'' ''zone-a'' ''web-1'' # post) =
        Some (evs2, ProcessPanicked)"
    by simp
  from evs2 [rule_format, of "[InstancesDelete ''p'' ''zone-b'' ''web-2'']"]
  have c: "\<exists>evs. deleteWorker deleteAccepted queryUnavailable
        (''delete.go: instance-worker-'', 0) ''p''
        [InstancesDelete ''p'' ''zone-a'' ''web-1'', InstancesDelete ''p'' ''zone-b'' ''web-2''] =
        Some (evs, ProcessPanicked)"
    by auto
  from inst2 [THEN conjunct2, THEN conjunct2, THEN conjunct2, THEN conjunct1] k1 k2 h3 k4
  have d: "ParallelInstances deleteAccepted queryUnavailable ''p'' 1 [vm1, vm2]
     firstWorkerTakesAll 1024 = EngineExit"
    by blast
  have m1: "jobDone deleteAccepted doneAtThirdQuery ''p'' (ImagesDelete ''p'' ''web-1'')"
    and m2: "jobDone deleteAccepted doneAtThirdQuery ''p'' (ImagesDelete ''p'' ''web-2'')"
    by code_simp+
  have all: "\<forall>w' < nat 1.
       \<forall>c' \<in> set (firstWorkerTakesAll (map (\<lambda>img. ImagesDelete ''p'' (Name img)) [web1, web2]) w').
         jobDone deleteAccepted doneAtThirdQuery ''p'' c'"
    using m1 m2 by (simp add: firstWorkerTakesAll_def web1_def web2_def)
  note inst3 = failed_job_ends_the_process
    [where del = deleteAccepted and get = doneAtThirdQuery and project = "''p''"
       and workers = 1 and imageList = "[web1, web2]" and sched = firstWorkerTakesAll
       and chanLimit = 1024]
  from inst3 [THEN conjunct2, THEN conjunct2, THEN conjunct2, THEN conjunct2, THEN conjunct2,
               THEN conjunct2, THEN conjunct2, THEN conjunct1] all
  have r: "ParallelImages deleteAccepted doneAtThirdQuery ''p'' 1 [web1, web2]
     firstWorkerTakesAll 1024 = Returned None"
    by simp
  from h1 have "jobDone deleteRefusesWeb1 doneAtThirdQuery ''p'' (ImagesDelete ''p'' ''api-1'')"
    by simp
  with h2 a b bj k2 c d m1 m2 r show ?thesis by blast
qed

text \<open>
  On the claim as first stated: the delete call for \<^verbatim>\<open>web-1\<close> is refused, the one for
  \<^verbatim>\<open>api-1\<close> would be accepted. The worker ends the process at \<^verbatim>\<open>web-1\<close> and never
  issues the call for \<^verbatim>\<open>api-1\<close>, and the engines end with the process instead of
  returning an error. A status query that fails ends the process as well, with no line
  logged for it.
\<close>

theorem failed_job_counterexample:
  "deleteWorker deleteRefusesWeb1 doneAtThirdQuery (''image-worker-'', 0) ''p''
     [ImagesDelete ''p'' ''web-1'', ImagesDelete ''p'' ''api-1''] =
     Some ([IssuedDelete (ImagesDelete ''p'' ''web-1''),
            Logged (FatalLine ''Unable to issue delete call'')], ProcessExited) \<and>
   deleteRefusesWeb1 (ImagesDelete ''p'' ''api-1'') = Inr opPending \<and>
   ParallelImages deleteRefusesWeb1 doneAtThirdQuery ''p'' 1 [web1, api1] firstWorkerTakesAll
     1024 = EngineExit \<and>
   Parallel deleteRefusesWeb1 doneAtThirdQuery 1
     [ImagesDelete ''p'' ''web-1'', ImagesDelete ''p'' ''api-1''] firstWorkerTakesAll 1024 =
     EngineExit \<and>
   deleteWorker deleteAccepted queryUnavailable (''image-worker-'', 0) ''p''
     [ImagesDelete ''p'' ''web-1'', ImagesDelete ''p'' ''api-1''] =
     Some ([IssuedDelete (ImagesDelete ''p'' ''web-1''),
            StatusQueried (GlobalOperationsGet ''p'' ''operation-1'')
              (Inr (opPending\<lparr>Status := ''RUNNING''\<rparr>)),
            StatusQueried (GlobalOperationsGet ''p'' ''operation-1'')
              (Inl (ApiError ''backend unavailable''))], ProcessPanicked)"
  by code_simp


end
